theory Spec2Isabelle
  imports Complex_Main
begin

section \<open>Airfoil coordinates and CST coefficients (af_opt/components/airfoil.py)\<close>

text \<open>
  The module converts between sampled airfoil surfaces and CST coefficients. Its two
  functions \<open>coords2cst\<close> and \<open>cst2coords\<close> and the method
  \<open>AirfoilComponent.compute_coords\<close> are embedded below.

  Conventions of the embedding:
  \<^item> a one-dimensional numpy array of 64-bit floats is an \<open>f64 list\<close>; an \<open>f64\<close> is a
    finite value, an infinity or not-a-number, and every arithmetic operation rounds its
    exact result to the nearest 64-bit float, ties to even, as IEEE 754 does. A finite
    value is carried as a real number: what the arithmetic operations return is a float,
    and what the external package and the grid generator return is taken as it is. The
    sign of zero is not modelled;
  \<^item> a Python \<open>int\<close> is an \<open>int\<close>;
  \<^item> an exception is a value \<open>Inl e\<close> of the type \<open>error + 'a\<close>;
  \<^item> a keyword argument that the caller leaves out is \<open>None\<close>, so that the callee's
    default stays the callee's business;
  \<^item> the functions \<open>cst\<close> and \<open>fit\<close> of the external package \<open>cst\<close> are
    parameters of the functions that call them.
\<close>

subsection \<open>Errors\<close>

datatype error =
    ShapeMismatch      \<comment> \<open>numpy's ValueError: operands could not be broadcast together\<close>
  | KeyError string    \<comment> \<open>a missing key of the inputs dictionary\<close>
  | IndexError         \<comment> \<open>an index out of range\<close>
  | InvalidArgument    \<comment> \<open>the grid generator's rejection of a sample count below two\<close>
  | OverflowError      \<comment> \<open>a Python int that does not fit the C int numpy asks for\<close>
  | FitFailure         \<comment> \<open>any failure that the external package reports\<close>

subsection \<open>64-bit floating point\<close>

text \<open>
  \<open>rint\<close> rounds a real number to the nearest integer, ties to the even one.
  \<open>rne\<close> rounds a real number to the nearest number with 53 significant bits and an
  exponent of at least -1022 (subnormal numbers included), ties to even: the spacing
  \<open>ulp x\<close> of such numbers around \<open>x\<close> is \<open>2\<close> to the power
  \<open>max (\<lfloor>log\<^sub>2 \<bar>x\<bar>\<rfloor>) (-1022) - 52\<close>. A rounded value beyond the largest finite float
  \<open>max64\<close> becomes an infinity.
\<close>

definition rint :: "real \<Rightarrow> int" where
  "rint v =
     (let f = \<lfloor>v\<rfloor>; r = v - of_int f
      in if r < 1 / 2 then f else if 1 / 2 < r then f + 1
         else if even f then f else f + 1)"

definition pow2 :: "int \<Rightarrow> real" where
  "pow2 e = (if 0 \<le> e then 2 ^ nat e else 1 / 2 ^ nat (- e))"

definition expo :: "real \<Rightarrow> int" where
  "expo x = \<lfloor>log 2 \<bar>x\<bar>\<rfloor>"

definition ulp :: "real \<Rightarrow> real" where
  "ulp x = pow2 (max (expo x) (- 1022) - 52)"

definition rne :: "real \<Rightarrow> real" where
  "rne x = (if x = 0 then 0 else of_int (rint (x / ulp x)) * ulp x)"

definition max64 :: real where
  "max64 = (2 ^ 53 - 1) * 2 ^ 971"

datatype f64 = Fin real | PInf | NInf | NaN

definition rnd64 :: "real \<Rightarrow> f64" where
  "rnd64 x =
     (let r = rne x
      in if max64 < r then PInf else if r < - max64 then NInf else Fin r)"

fun fneg :: "f64 \<Rightarrow> f64" where
  "fneg (Fin a) = Fin (- a)"
| "fneg PInf = NInf"
| "fneg NInf = PInf"
| "fneg NaN = NaN"

fun fadd :: "f64 \<Rightarrow> f64 \<Rightarrow> f64" where
  "fadd (Fin a) (Fin b) = rnd64 (a + b)"
| "fadd NaN _ = NaN"
| "fadd _ NaN = NaN"
| "fadd PInf NInf = NaN"
| "fadd NInf PInf = NaN"
| "fadd PInf _ = PInf"
| "fadd _ PInf = PInf"
| "fadd NInf _ = NInf"
| "fadd _ NInf = NInf"

definition fsub :: "f64 \<Rightarrow> f64 \<Rightarrow> f64" where
  "fsub a b = fadd a (fneg b)"

fun fmul :: "f64 \<Rightarrow> f64 \<Rightarrow> f64" where
  "fmul (Fin a) (Fin b) = rnd64 (a * b)"
| "fmul NaN _ = NaN"
| "fmul _ NaN = NaN"
| "fmul (Fin a) PInf = (if a = 0 then NaN else if 0 < a then PInf else NInf)"
| "fmul (Fin a) NInf = (if a = 0 then NaN else if 0 < a then NInf else PInf)"
| "fmul PInf (Fin b) = (if b = 0 then NaN else if 0 < b then PInf else NInf)"
| "fmul NInf (Fin b) = (if b = 0 then NaN else if 0 < b then NInf else PInf)"
| "fmul PInf PInf = PInf"
| "fmul PInf NInf = NInf"
| "fmul NInf PInf = NInf"
| "fmul NInf NInf = PInf"

fun fdiv :: "f64 \<Rightarrow> f64 \<Rightarrow> f64" where
  "fdiv (Fin a) (Fin b) =
     (if b = 0 then (if a = 0 then NaN else if 0 < a then PInf else NInf)
      else rnd64 (a / b))"
| "fdiv NaN _ = NaN"
| "fdiv _ NaN = NaN"
| "fdiv (Fin a) PInf = Fin 0"
| "fdiv (Fin a) NInf = Fin 0"
| "fdiv PInf (Fin b) = (if 0 \<le> b then PInf else NInf)"
| "fdiv NInf (Fin b) = (if 0 \<le> b then NInf else PInf)"
| "fdiv PInf PInf = NaN"
| "fdiv PInf NInf = NaN"
| "fdiv NInf PInf = NaN"
| "fdiv NInf NInf = NaN"

fun frint :: "f64 \<Rightarrow> f64" where
  "frint (Fin a) = Fin (of_int (rint a))"
| "frint PInf = PInf"
| "frint NInf = NInf"
| "frint NaN = NaN"

subsection \<open>numpy arithmetic on one-dimensional arrays\<close>

text \<open>
  A binary operator on two one-dimensional arrays works element by element when the
  lengths agree, stretches an array of length one to the other's length, and raises
  otherwise.
\<close>

definition broadcast2 ::
  "(f64 \<Rightarrow> f64 \<Rightarrow> f64) \<Rightarrow> f64 list \<Rightarrow> f64 list \<Rightarrow> error + f64 list" where
  "broadcast2 f xs ys =
     (if length xs = length ys then Inr (map2 f xs ys)
      else if length xs = 1 then Inr (map (f (hd xs)) ys)
      else if length ys = 1 then Inr (map (\<lambda>x. f x (hd ys)) xs)
      else Inl ShapeMismatch)"

definition np_add :: "f64 list \<Rightarrow> f64 list \<Rightarrow> error + f64 list" where
  "np_add = broadcast2 fadd"

definition np_sub :: "f64 list \<Rightarrow> f64 list \<Rightarrow> error + f64 list" where
  "np_sub = broadcast2 fsub"

definition np_half :: "f64 list \<Rightarrow> f64 list" where
  \<comment> \<open>\<open>a / 2\<close> with the scalar 2\<close>
  "np_half xs = map (\<lambda>a. fdiv a (Fin 2)) xs"

text \<open>
  \<open>np.round(a, decimals)\<close> on an array of floats. numpy takes \<open>decimals\<close> as a C int.
  It computes the power of ten as a float, by a table up to \<open>10\<^sup>8\<close> and by repeated
  multiplication with 10 from \<open>10\<^sup>9\<close> on, then multiplies every element by it, rounds to
  the nearest integer with ties to even, and divides by it; for negative \<open>decimals\<close>
  it divides first and multiplies after.
\<close>

definition power_of_ten :: "nat \<Rightarrow> f64" where
  "power_of_ten n =
     (if n < 9 then Fin (10 ^ n)
      else ((\<lambda>r. fmul r (Fin 10)) ^^ (n - 9)) (Fin (10 ^ 9)))"

definition round1 :: "int \<Rightarrow> f64 \<Rightarrow> f64" where
  "round1 decimals v =
     (let f = power_of_ten (nat \<bar>decimals\<bar>)
      in if 0 \<le> decimals then fdiv (frint (fmul v f)) f
         else fmul (frint (fdiv v f)) f)"

definition np_round :: "f64 list \<Rightarrow> int \<Rightarrow> error + f64 list" where
  "np_round xs decimals =
     (if decimals < - (2 ^ 31) \<or> 2 ^ 31 \<le> decimals then Inl OverflowError
      else Inr (map (round1 decimals) xs))"

subsection \<open>The external CST package\<close>

text \<open>
  \<open>cst(x, a, delta=..., n1=...)\<close> evaluates a CST curve and
  \<open>fit(x, y, n, delta=..., n1=...)\<close> fits one, returning the coefficients and the pair
  of boundary values. Neither is part of this repository.
\<close>

type_synonym cst_fn =
  "f64 list \<Rightarrow> f64 list \<Rightarrow> (f64 \<times> f64) option \<Rightarrow> f64 option \<Rightarrow> error + f64 list"

type_synonym fit_fn =
  "f64 list \<Rightarrow> f64 list \<Rightarrow> int \<Rightarrow> (f64 \<times> f64) option \<Rightarrow> f64 option
     \<Rightarrow> error + (f64 list \<times> (f64 \<times> f64))"

subsection \<open>The parameter grid\<close>

text \<open>
  Modelled from the spec: \<open>cosspace\<close> of \<open>af_opt/util.py\<close>, which is not among the
  source files. Section 4.1 of the specification gives its contract: \<open>N\<close> values
  \<open>t\<^sub>i = lo + (hi - lo) * (1 - cos (pi * i / (N - 1))) / 2\<close> for \<open>i\<close> from \<open>0\<close> to
  \<open>N - 1\<close>, and an invalid-argument failure for \<open>N < 2\<close>. The values are those of
  the specification's formula.
\<close>

definition cosspace :: "real \<Rightarrow> real \<Rightarrow> int \<Rightarrow> error + f64 list" where
  "cosspace lo hi N =
     (if N < 2 then Inl InvalidArgument
      else Inr (map (\<lambda>i. Fin (lo + (hi - lo) * (1 - cos (pi * real i / real_of_int (N - 1))) / 2))
                  [0..<nat N]))"

subsection \<open>coords2cst\<close>

definition coords2cst ::
  "fit_fn \<Rightarrow> f64 list \<Rightarrow> f64 list \<Rightarrow> f64 list \<Rightarrow> int \<Rightarrow> int
     \<Rightarrow> error + (f64 list \<times> f64 list \<times> f64)" where
  "coords2cst fit x y_u y_l n_ca n_th =
     (case np_add y_u y_l of Inl e \<Rightarrow> Inl e | Inr s \<Rightarrow>
     (let y_c = np_half s in
     (case np_sub y_u y_l of Inl e \<Rightarrow> Inl e | Inr t \<Rightarrow>
     (case fit x y_c n_ca (Some (Fin 0, Fin 0)) (Some (Fin 1)) of
        Inl e \<Rightarrow> Inl e
      | Inr (a_ca, _) \<Rightarrow>
     (case fit x t n_th None None of Inl e \<Rightarrow> Inl e | Inr (a_th, t_te) \<Rightarrow>
      Inr (a_ca, a_th, snd t_te))))))"

subsection \<open>cst2coords\<close>

definition cst2coords ::
  "cst_fn \<Rightarrow> f64 list \<Rightarrow> f64 list \<Rightarrow> f64 \<Rightarrow> int
     \<Rightarrow> error + (f64 list \<times> f64 list \<times> f64 list \<times> f64 list \<times> f64 list)" where
  "cst2coords cst a_ca a_th t_te n_coords =
     (case cosspace 0 1 n_coords of Inl e \<Rightarrow> Inl e | Inr x \<Rightarrow>
     (case cst x a_ca None (Some (Fin 1)) of Inl e \<Rightarrow> Inl e | Inr y_c \<Rightarrow>
     (case cst x a_th (Some (Fin 0, t_te)) None of Inl e \<Rightarrow> Inl e | Inr t \<Rightarrow>
     (case np_add y_c (np_half t) of Inl e \<Rightarrow> Inl e | Inr y_u \<Rightarrow>
     (case np_sub y_c (np_half t) of Inl e \<Rightarrow> Inl e | Inr y_l \<Rightarrow>
      Inr (x, y_u, y_l, y_c, t))))))"

subsection \<open>AirfoilComponent\<close>

text \<open>The options that \<open>initialize\<close> declares, with their defaults 6, 6 and 100.\<close>

record options =
  opt_n_ca :: int
  opt_n_th :: int
  opt_n_coords :: int

definition default_options :: options where
  "default_options = \<lparr>opt_n_ca = 6, opt_n_th = 6, opt_n_coords = 100\<rparr>"

text \<open>\<open>inputs[key]\<close> and \<open>a[0]\<close>.\<close>

definition getitem :: "(string \<rightharpoonup> f64 list) \<Rightarrow> string \<Rightarrow> error + f64 list" where
  "getitem inputs k = (case inputs k of None \<Rightarrow> Inl (KeyError k) | Some v \<Rightarrow> Inr v)"

definition first :: "f64 list \<Rightarrow> error + f64" where
  "first a = (case a of [] \<Rightarrow> Inl IndexError | v # _ \<Rightarrow> Inr v)"

definition compute_coords ::
  "cst_fn \<Rightarrow> options \<Rightarrow> (string \<rightharpoonup> f64 list) \<Rightarrow> int option \<Rightarrow> int option
     \<Rightarrow> error + (f64 list \<times> f64 list \<times> f64 list \<times> f64 list \<times> f64 list)" where
  "compute_coords cst self inputs precision n_coords =
     (case getitem inputs ''a_ca'' of Inl e \<Rightarrow> Inl e | Inr a_ca \<Rightarrow>
     (case getitem inputs ''a_th'' of Inl e \<Rightarrow> Inl e | Inr a_th \<Rightarrow>
     (case getitem inputs ''t_te'' of Inl e \<Rightarrow> Inl e | Inr t_te_arr \<Rightarrow>
     (case first t_te_arr of Inl e \<Rightarrow> Inl e | Inr t_te \<Rightarrow>
     (case cst2coords cst a_ca a_th t_te
             (case n_coords of None \<Rightarrow> opt_n_coords self | Some k \<Rightarrow> k) of
        Inl e \<Rightarrow> Inl e
      | Inr (x, y_u, y_l, y_c, t) \<Rightarrow>
          (case precision of
             Some p \<Rightarrow>
               (case np_round x p of Inl e \<Rightarrow> Inl e | Inr x' \<Rightarrow>
               (case np_round y_u p of Inl e \<Rightarrow> Inl e | Inr y_u' \<Rightarrow>
               (case np_round y_l p of Inl e \<Rightarrow> Inl e | Inr y_l' \<Rightarrow>
               (case np_round y_c p of Inl e \<Rightarrow> Inl e | Inr y_c' \<Rightarrow>
               (case np_round t p of Inl e \<Rightarrow> Inl e | Inr t' \<Rightarrow>
                Inr (x', y_u', y_l', y_c', t'))))))
           | None \<Rightarrow> Inr (x, y_u, y_l, y_c, t)))))))"

subsection \<open>Stand-ins for the external package\<close>

text \<open>
  The theorems below hold for every evaluator and every fit. Two stand-ins instantiate
  them at concrete inputs; nothing else depends on them.

  \<open>cst_std\<close> is the textbook CST curve: the class function \<open>x\<^sup>n\<^sup>1 * (1 - x)\<close> times
  the Bernstein expansion of the coefficients, plus the boundary term
  \<open>(1 - x) * delta\<^sub>0 + x * delta\<^sub>1\<close>. The first exponent is 1/2 and the boundary values
  are \<open>(0, 0)\<close> when left out. It computes with the values of its arguments as real
  numbers and returns the exact results.

  \<open>fit_ends\<close> rejects arrays of different lengths, empty arrays and a count that is
  not positive. Otherwise it returns \<open>n\<close> zero coefficients and, as boundary values, the
  given ones or the first and the last sample.
\<close>

fun val :: "f64 \<Rightarrow> real" where
  "val (Fin a) = a"
| "val PInf = 0"
| "val NInf = 0"
| "val NaN = 0"

definition shape :: "real list \<Rightarrow> real \<Rightarrow> real" where
  "shape a v =
     (\<Sum>r<length a. a ! r * real ((length a - 1) choose r) * v ^ r * (1 - v) ^ (length a - 1 - r))"

definition cst_std :: cst_fn where
  "cst_std x a delta n1 =
     (let d = (case delta of None \<Rightarrow> (0, 0) | Some (p, q) \<Rightarrow> (val p, val q));
          e = (case n1 of None \<Rightarrow> 1 / 2 | Some q \<Rightarrow> val q)
      in Inr (map (\<lambda>v. Fin (val v powr e * (1 - val v) * shape (map val a) (val v)
                              + (1 - val v) * fst d + val v * snd d)) x))"

definition fit_ends :: fit_fn where
  "fit_ends x y n delta n1 =
     (if length x \<noteq> length y then Inl ShapeMismatch
      else if n \<le> 0 \<or> y = [] then Inl InvalidArgument
      else Inr (replicate (nat n) (Fin 0),
                (case delta of None \<Rightarrow> (hd y, last y) | Some p \<Rightarrow> p)))"

text \<open>Two inputs dictionaries that differ only after the first element of \<open>t_te\<close>.\<close>

definition example_inputs :: "string \<rightharpoonup> f64 list" where
  "example_inputs = [''a_ca'' \<mapsto> [Fin 1], ''a_th'' \<mapsto> [Fin 0], ''t_te'' \<mapsto> [Fin (1 / 2)]]"

definition example_inputs_long :: "string \<rightharpoonup> f64 list" where
  "example_inputs_long =
     [''a_ca'' \<mapsto> [Fin 1], ''a_th'' \<mapsto> [Fin 0], ''t_te'' \<mapsto> [Fin (1 / 2), Fin 7]]"

subsection \<open>Notions used by the properties\<close>

text \<open>
  Modelled from the spec: the shape of what the external evaluator returns. It gives
  one value per grid point (section 6 of the specification: it takes a parameter grid
  and returns the sequence of evaluated curve values).
\<close>

definition grid_shaped :: "cst_fn \<Rightarrow> bool" where
  "grid_shaped cst =
     (\<forall>x a delta n1 ys. cst x a delta n1 = Inr ys \<longrightarrow> length ys = length x)"

text \<open>
  The fit path as section 4.2 of the specification words it: camber and thickness are
  formed point by point on the shared grid, the camber is fitted with the boundary
  values \<open>(0, 0)\<close> and the first exponent 1, the thickness with the fit's defaults, and
  the trailing-edge thickness is the second boundary value of the thickness fit.
\<close>

definition coords2cst_spec ::
  "fit_fn \<Rightarrow> f64 list \<Rightarrow> f64 list \<Rightarrow> f64 list \<Rightarrow> int \<Rightarrow> int
     \<Rightarrow> error + (f64 list \<times> f64 list \<times> f64)" where
  "coords2cst_spec fit x y_u y_l n_ca n_th =
     (let camber = map2 (\<lambda>u l. fdiv (fadd u l) (Fin 2)) y_u y_l;
          thickness = map2 (\<lambda>u l. fsub u l) y_u y_l
      in (case fit x camber n_ca (Some (Fin 0, Fin 0)) (Some (Fin 1)) of
            Inl e \<Rightarrow> Inl e
          | Inr (a_ca, _) \<Rightarrow>
              (case fit x thickness n_th None None of
                 Inl e \<Rightarrow> Inl e
               | Inr (a_th, b) \<Rightarrow> Inr (a_ca, a_th, snd b))))"


text \<open>
  The relative and the absolute error of rounding to a 64-bit float: a rounded value
  differs from the exact one by at most \<open>eps64\<close> times its size plus \<open>eta64\<close>.
\<close>

definition eps64 :: real where
  "eps64 = 1 / 2 ^ 53"

definition eta64 :: real where
  "eta64 = 1 / 2 ^ 1075"

text \<open>
  What rounding to \<open>p\<close> decimals means for one float \<open>v\<close> and its result \<open>w\<close>: with
  \<open>f\<close> the float power of ten and \<open>m\<close> the float product of \<open>v\<close> and \<open>f\<close>, there is an
  integer \<open>k\<close> nearest to \<open>m\<close>, the even one of two that are equally near, of which
  \<open>w\<close> is the float quotient by \<open>f\<close>. For negative \<open>p\<close> quotient and product change
  places. An \<open>m\<close> that is not finite has no nearest integer and is taken as it is.
\<close>

definition nearest_int :: "real \<Rightarrow> int \<Rightarrow> bool" where
  "nearest_int m k =
     (\<bar>of_int k - m\<bar> \<le> 1 / 2 \<and> (\<bar>of_int k - m\<bar> = 1 / 2 \<longrightarrow> even k))"

definition rounded_elem :: "int \<Rightarrow> f64 \<Rightarrow> f64 \<Rightarrow> bool" where
  "rounded_elem p v w =
     (let f = power_of_ten (nat \<bar>p\<bar>);
          m = (if 0 \<le> p then fmul v f else fdiv v f)
      in case m of
           Fin a \<Rightarrow>
             (\<exists>k. nearest_int a k \<and>
                  w = (if 0 \<le> p then fdiv (Fin (of_int k)) f else fmul (Fin (of_int k)) f))
         | _ \<Rightarrow> w = (if 0 \<le> p then fdiv m f else fmul m f))"

definition rounded_to :: "int \<Rightarrow> f64 list \<Rightarrow> f64 list \<Rightarrow> bool" where
  "rounded_to p xs ys =
     (length ys = length xs \<and> (\<forall>i<length xs. rounded_elem p (xs ! i) (ys ! i)))"

text \<open>
  How near the result of rounding to \<open>p\<close> decimals stays: wherever a finite \<open>a\<close> became
  a finite \<open>b\<close>, the two differ by at most half a unit of the \<open>p\<close>-th decimal place, up
  to the rounding errors of the product, of the quotient and of the half unit.
\<close>

definition decimal_close :: "int \<Rightarrow> f64 list \<Rightarrow> f64 list \<Rightarrow> bool" where
  "decimal_close p xs ys =
     (\<forall>i<length xs. \<forall>a b. xs ! i = Fin a \<and> ys ! i = Fin b \<longrightarrow>
        \<bar>b - a\<bar> \<le> (1 + eps64) / (2 * 10 ^ nat p) + 3 * eps64 * \<bar>a\<bar> + 3 * eta64)"

text \<open>
  An inputs dictionary whose trailing-edge thickness is the float nearest to 2.675,
  which lies below 2.675.
\<close>

definition example_inputs_te :: "string \<rightharpoonup> f64 list" where
  "example_inputs_te =
     [''a_ca'' \<mapsto> [Fin 1], ''a_th'' \<mapsto> [Fin 0], ''t_te'' \<mapsto> [Fin (3011782250804019 / 2 ^ 50)]]"

section \<open>Properties\<close>

subsection \<open>Rounding to a float\<close>

lemma pow2_powr: "pow2 e = 2 powr (of_int e)"
  by (simp add: pow2_def powr_real_of_int inverse_eq_divide)

lemma pow2_pos [simp]: "0 < pow2 e"
  by (simp add: pow2_powr)

lemma pow2_nonzero [simp]: "pow2 e \<noteq> 0"
  by (simp add: pow2_powr)

lemma pow2_abs [simp]: "\<bar>pow2 e\<bar> = pow2 e"
  by (simp add: pow2_powr)

lemma pow2_nonneg [simp]: "0 \<le> pow2 e"
  by (simp add: pow2_powr)

lemma pow2_add: "pow2 (a + b) = pow2 a * pow2 b"
  by (simp add: pow2_powr powr_add)

lemma pow2_mono: "a \<le> b \<Longrightarrow> pow2 a \<le> pow2 b"
  by (simp add: pow2_powr)

lemma rint_error: "\<bar>of_int (rint y) - y\<bar> \<le> 1 / 2"
  unfolding rint_def Let_def by (auto; linarith)

lemma rint_of_int: "rint (of_int k) = k"
  by (simp add: rint_def Let_def)

lemma rint_tie: "\<bar>of_int (rint y) - y\<bar> = 1 / 2 \<Longrightarrow> even (rint y)"
  unfolding rint_def Let_def by (auto split: if_splits; linarith)

lemma nearest_int_rint: "nearest_int m (rint m)"
  using rint_error [of m] rint_tie [of m] by (simp add: nearest_int_def)

lemma expo_bounds:
  assumes "x \<noteq> 0"
  shows "pow2 (expo x) \<le> \<bar>x\<bar>" and "\<bar>x\<bar> < pow2 (expo x + 1)"
proof -
  from assms have p: "0 < \<bar>x\<bar>" by simp
  have "of_int (expo x) \<le> log 2 \<bar>x\<bar>" by (simp add: expo_def)
  then show "pow2 (expo x) \<le> \<bar>x\<bar>"
    using p by (simp add: pow2_powr le_log_iff)
  have "log 2 \<bar>x\<bar> < of_int (expo x + 1)" by (simp add: expo_def)
  then show "\<bar>x\<bar> < pow2 (expo x + 1)"
    using p by (simp add: pow2_powr log_less_iff)
qed

lemma expo_eqI:
  assumes "pow2 e \<le> \<bar>x\<bar>" and "\<bar>x\<bar> < pow2 (e + 1)"
  shows "expo x = e"
proof -
  from assms(1) have p: "0 < \<bar>x\<bar>" using pow2_pos [of e] by linarith
  from assms(1) p have "of_int e \<le> log 2 \<bar>x\<bar>"
    by (simp add: pow2_powr le_log_iff)
  moreover from assms(2) p have "log 2 \<bar>x\<bar> < of_int e + 1"
    by (simp add: pow2_powr log_less_iff)
  ultimately show ?thesis unfolding expo_def by (simp add: floor_unique)
qed

lemma ulp_pos [simp]: "0 < ulp x"
  by (simp add: ulp_def)

lemma ulp_nonzero [simp]: "ulp x \<noteq> 0"
  by (simp add: ulp_def)

lemma ulp_abs [simp]: "\<bar>ulp x\<bar> = ulp x"
  by (simp add: ulp_def)

lemma rne_error_ulp: "\<bar>rne x - x\<bar> \<le> ulp x / 2"
proof (cases "x = 0")
  case True
  then show ?thesis by (simp add: rne_def less_imp_le)
next
  case False
  have "\<bar>of_int (rint (x / ulp x)) * ulp x - x\<bar>
      = \<bar>of_int (rint (x / ulp x)) - x / ulp x\<bar> * ulp x"
  proof -
    have "of_int (rint (x / ulp x)) * ulp x - x
        = (of_int (rint (x / ulp x)) - x / ulp x) * ulp x"
      by (simp add: field_simps)
    then show ?thesis by (simp add: abs_mult)
  qed
  also have "\<dots> \<le> 1 / 2 * ulp x"
    by (rule mult_right_mono [OF rint_error]) (simp add: less_imp_le)
  finally show ?thesis using False by (simp add: rne_def)
qed

lemma rne_error: "\<bar>rne x - x\<bar> \<le> eps64 * \<bar>x\<bar> + eta64"
proof (cases "x = 0")
  case True
  then show ?thesis by (simp add: rne_def eta64_def)
next
  case False
  note b = expo_bounds [OF False]
  show ?thesis
  proof (cases "- 1022 \<le> expo x")
    case True
    then have "ulp x = pow2 (expo x + (- 52))" by (simp add: ulp_def max_def)
    also have "\<dots> = pow2 (expo x) * pow2 (- 52)" by (rule pow2_add)
    finally have "ulp x / 2 = pow2 (expo x) * eps64"
      by (simp add: pow2_def eps64_def)
    also have "\<dots> \<le> \<bar>x\<bar> * eps64"
      by (rule mult_right_mono [OF b(1)]) (simp add: eps64_def)
    finally have "ulp x / 2 \<le> eps64 * \<bar>x\<bar>" by (simp add: mult.commute)
    with rne_error_ulp [of x] show ?thesis by (simp add: eta64_def)
  next
    case False
    then have "ulp x = pow2 (- 1074)" by (simp add: ulp_def max_def)
    then have "ulp x / 2 = eta64" by (simp add: pow2_def eta64_def)
    with rne_error_ulp [of x] have "\<bar>rne x - x\<bar> \<le> eta64" by simp
    moreover have "0 \<le> eps64 * \<bar>x\<bar>" by (simp add: eps64_def)
    ultimately show ?thesis by linarith
  qed
qed

lemma rne_eqI:
  assumes "pow2 e \<le> \<bar>x\<bar>" and "\<bar>x\<bar> < pow2 (e + 1)" and "- 1022 \<le> e"
  shows "rne x = of_int (rint (x / pow2 (e - 52))) * pow2 (e - 52)"
proof -
  from assms(1) have "0 < \<bar>x\<bar>" using pow2_pos [of e] by linarith
  then have "x \<noteq> 0" by simp
  moreover have "ulp x = pow2 (e - 52)"
    using expo_eqI [OF assms(1,2)] assms(3) by (simp add: ulp_def max_def)
  ultimately show ?thesis by (simp add: rne_def)
qed

lemma rne_exact:
  assumes "\<bar>m\<bar> < 2 ^ 53" and "- 1074 \<le> e"
  shows "rne (of_int m * pow2 e) = of_int m * pow2 e"
proof (cases "m = 0")
  case True
  then show ?thesis by (simp add: rne_def)
next
  case False
  let ?x = "of_int m * pow2 e"
  from False have nz: "?x \<noteq> 0" by simp
  let ?u = "max (expo ?x) (- 1022) - 52"
  have le: "?u \<le> e"
  proof -
    have "\<bar>?x\<bar> = \<bar>of_int m\<bar> * pow2 e" by (simp add: abs_mult)
    also have "\<dots> < 2 ^ 53 * pow2 e"
    proof (rule mult_strict_right_mono)
      from assms(1) have "of_int \<bar>m\<bar> < (of_int (2 ^ 53) :: real)"
        by (simp only: of_int_less_iff)
      then show "\<bar>real_of_int m\<bar> < 2 ^ 53" by simp
    qed simp
    also have "\<dots> = pow2 (53 + e)" by (simp add: pow2_add) (simp add: pow2_def)
    finally have "pow2 (expo ?x) < pow2 (53 + e)"
      using expo_bounds(1) [OF nz] by linarith
    then have "expo ?x < 53 + e"
      by (simp add: pow2_powr)
    with assms(2) show ?thesis by simp
  qed
  then obtain k where k: "e = ?u + int k"
    by (metis nonneg_int_cases diff_ge_0_iff_ge add_diff_cancel_left' add.commute
        diff_add_cancel)
  define U where "U = pow2 ?u"
  have Unz: "U \<noteq> 0" by (simp add: U_def)
  have uU: "ulp ?x = U" by (simp add: ulp_def U_def)
  have pe: "pow2 e = U * 2 ^ k"
    unfolding U_def by (subst k) (simp add: pow2_add, simp add: pow2_def)
  have q: "of_int m * pow2 e / U = of_int (m * 2 ^ k)"
    using Unz by (simp add: pe)
  have "of_int (rint (?x / ulp ?x)) * ulp ?x = of_int (rint (of_int (m * 2 ^ k))) * U"
    by (simp only: uU q)
  also have "\<dots> = of_int (m * 2 ^ k) * U"
    by (simp only: rint_of_int)
  also have "\<dots> = ?x"
    by (simp add: pe)
  finally show ?thesis using nz by (simp add: rne_def)
qed

lemma rnd64_FinD: "rnd64 x = Fin r \<Longrightarrow> r = rne x \<and> \<bar>r\<bar> \<le> max64"
  by (auto simp: rnd64_def Let_def split: if_splits)

lemma rnd64_exact:
  assumes "\<bar>m\<bar> < 2 ^ 53" and "- 1074 \<le> e" and "e \<le> 971"
  shows "rnd64 (of_int m * pow2 e) = Fin (of_int m * pow2 e)"
proof -
  from assms(1) have "\<bar>m\<bar> \<le> 2 ^ 53 - 1" by simp
  then have "of_int \<bar>m\<bar> \<le> (of_int (2 ^ 53 - 1) :: real)" by (simp only: of_int_le_iff)
  then have m: "\<bar>real_of_int m\<bar> \<le> 2 ^ 53 - 1" by simp
  from assms(3) have "pow2 e \<le> pow2 971" by (rule pow2_mono)
  then have e: "pow2 e \<le> 2 ^ 971" by (simp add: pow2_def)
  have "\<bar>of_int m * pow2 e\<bar> = \<bar>real_of_int m\<bar> * pow2 e" by (simp add: abs_mult)
  also have "\<dots> \<le> (2 ^ 53 - 1) * 2 ^ 971"
    by (rule mult_mono [OF m e]) simp_all
  finally have "\<bar>of_int m * pow2 e\<bar> \<le> max64" by (simp add: max64_def)
  then show ?thesis
    by (auto simp: rnd64_def Let_def rne_exact [OF assms(1,2)])
qed

lemma pow2_neg: "pow2 (- int k) = 1 / 2 ^ k"
  by (cases "k = 0") (simp_all add: pow2_def)

lemma rnd64_dyadic:
  assumes "\<bar>m\<bar> < 2 ^ 53" and "k \<le> 1074"
  shows "rnd64 (of_int m / 2 ^ k) = Fin (of_int m / 2 ^ k)"
  using rnd64_exact [OF assms(1), of "- int k"] assms(2) by (simp add: pow2_neg)

lemma rnd64_of_int:
  assumes "\<bar>m\<bar> < 2 ^ 53"
  shows "rnd64 (of_int m) = Fin (of_int m)"
  using rnd64_exact [OF assms, of 0] by (simp add: pow2_def)

lemma fsub_Fin [simp]: "fsub (Fin a) (Fin b) = rnd64 (a - b)"
  by (simp add: fsub_def)

lemma rnd64_examples:
  "rnd64 0 = Fin 0" "rnd64 1 = Fin 1" "rnd64 2 = Fin 2" "rnd64 (1 / 2) = Fin (1 / 2)"
  "rnd64 (1 / 4) = Fin (1 / 4)" "rnd64 (1 / 8) = Fin (1 / 8)" "rnd64 (3 / 8) = Fin (3 / 8)"
  "rnd64 (- (1 / 4)) = Fin (- (1 / 4))" "rnd64 (- 1) = Fin (- 1)"
  "rnd64 25 = Fin 25" "rnd64 (- 25) = Fin (- 25)" "rnd64 50 = Fin 50" "rnd64 100 = Fin 100"
  "rnd64 (75 / 2) = Fin (75 / 2)" "rnd64 (25 / 2) = Fin (25 / 2)"
  using rnd64_of_int [of 0] rnd64_of_int [of 1] rnd64_of_int [of 2] rnd64_dyadic [of 1 1]
    rnd64_dyadic [of 1 2] rnd64_dyadic [of 1 3] rnd64_dyadic [of 3 3]
    rnd64_dyadic [of "- 1" 2] rnd64_of_int [of "- 1"] rnd64_of_int [of 25]
    rnd64_of_int [of "- 25"] rnd64_of_int [of 50] rnd64_of_int [of 100]
    rnd64_dyadic [of 75 1] rnd64_dyadic [of 25 1]
  by simp_all

lemma rnd64_eqI:
  assumes "pow2 e \<le> \<bar>x\<bar>" and "\<bar>x\<bar> < pow2 (e + 1)" and "- 1022 \<le> e"
      and "r = of_int (rint (x / pow2 (e - 52))) * pow2 (e - 52)" and "\<bar>r\<bar> \<le> max64"
  shows "rnd64 x = Fin r"
  using rne_eqI [OF assms(1,2,3)] assms(4,5) by (auto simp: rnd64_def Let_def)

lemma rint_examples:
  "rint 0 = 0" "rint 25 = 25" "rint (- 25) = - 25" "rint 50 = 50" "rint 100 = 100"
  "rint (75 / 2) = 38" "rint (25 / 2) = 12"
  using rint_of_int [of 25] rint_of_int [of "- 25"] rint_of_int [of 50] rint_of_int [of 100]
  by (simp_all add: rint_def Let_def)

lemma rnd64_decimals:
  "rnd64 (38 / 100) = Fin (3422735716801577 / 2 ^ 53)"
  "rnd64 (12 / 100) = Fin (1080863910568919 / 2 ^ 53)"
proof -
  show "rnd64 (38 / 100) = Fin (3422735716801577 / 2 ^ 53)"
    by (rule rnd64_eqI [where e = "- 2"]) (simp_all add: pow2_def rint_def Let_def max64_def)
  show "rnd64 (12 / 100) = Fin (1080863910568919 / 2 ^ 53)"
    by (rule rnd64_eqI [where e = "- 4"]) (simp_all add: pow2_def rint_def Let_def max64_def)
qed

subsection \<open>The float power of ten\<close>

lemma power_of_ten_small: "n < 9 \<Longrightarrow> power_of_ten n = Fin (10 ^ n)"
  by (simp add: power_of_ten_def)

lemma eps64_small: "0 < eps64" "eps64 \<le> 1 / 4" "eta64 \<le> eps64" "0 < eta64"
  by (simp_all add: eps64_def eta64_def)

lemma rne_lower:
  assumes "1 \<le> x"
  shows "x * (1 - 2 * eps64) \<le> rne x"
proof -
  from rne_error [of x] have "x - (eps64 * \<bar>x\<bar> + eta64) \<le> rne x" by linarith
  moreover from assms have "\<bar>x\<bar> = x" by simp
  moreover have "eta64 \<le> eps64 * x"
  proof -
    have "eps64 * 1 \<le> eps64 * x"
      by (rule mult_left_mono [OF assms]) (simp add: eps64_def)
    with eps64_small(3) show ?thesis by simp
  qed
  ultimately show ?thesis by (simp add: algebra_simps)
qed

lemma times_ten_step:
  assumes "1 \<le> c" and "b \<le> c" and "0 \<le> b"
  shows "fmul (Fin c) (Fin 10) = PInf \<or>
         (\<exists>c'. fmul (Fin c) (Fin 10) = Fin c' \<and> 1 \<le> c' \<and> c' \<le> max64 \<and>
               10 * b * (1 - 2 * eps64) \<le> c')"
proof -
  let ?r = "rne (c * 10)"
  from assms(1) have x: "1 \<le> c * 10" by simp
  have f: "0 \<le> 1 - 2 * eps64" "1 \<le> 10 * (1 - 2 * eps64)"
    using eps64_small(2) by simp_all
  from rne_lower [OF x] have l: "c * 10 * (1 - 2 * eps64) \<le> ?r" .
  have a1: "c \<le> c * (10 * (1 - 2 * eps64))"
    using mult_left_mono [OF f(2), of c] assms(1) by simp
  have a2: "c * (10 * (1 - 2 * eps64)) = c * 10 * (1 - 2 * eps64)" by simp
  from a1 a2 l assms(1) have one: "1 \<le> ?r" by linarith
  have "b * (10 * (1 - 2 * eps64)) \<le> c * (10 * (1 - 2 * eps64))"
    by (rule mult_right_mono [OF assms(2)]) (use f(2) in simp)
  with l have low: "10 * b * (1 - 2 * eps64) \<le> ?r" by (simp add: mult_ac)
  have "0 \<le> max64" by (simp add: max64_def)
  with one have "\<not> ?r < - max64" by simp
  with one low show ?thesis
    by (auto simp: rnd64_def Let_def)
qed

lemma times_ten_chain:
  "((\<lambda>r. fmul r (Fin 10)) ^^ k) (Fin (10 ^ 9)) = PInf \<or>
   (\<exists>c. ((\<lambda>r. fmul r (Fin 10)) ^^ k) (Fin (10 ^ 9)) = Fin c \<and> 1 \<le> c \<and> c \<le> max64 \<and>
        10 ^ (9 + k) * (1 - 2 * eps64) ^ k \<le> c)"
proof (induction k)
  case 0
  show ?case by (simp add: max64_def)
next
  case (Suc k)
  from Suc.IH show ?case
  proof
    assume "((\<lambda>r. fmul r (Fin 10)) ^^ k) (Fin (10 ^ 9)) = PInf"
    then show ?thesis by simp
  next
    assume "\<exists>c. ((\<lambda>r. fmul r (Fin 10)) ^^ k) (Fin (10 ^ 9)) = Fin c \<and> 1 \<le> c \<and>
               c \<le> max64 \<and> 10 ^ (9 + k) * (1 - 2 * eps64) ^ k \<le> c"
    then obtain c where c: "((\<lambda>r. fmul r (Fin 10)) ^^ k) (Fin (10 ^ 9)) = Fin c"
      and one: "1 \<le> c" and low: "10 ^ (9 + k) * (1 - 2 * eps64) ^ k \<le> c"
      by blast
    have nn: "0 \<le> 10 ^ (9 + k) * (1 - 2 * eps64) ^ k"
      using eps64_small(2) by simp
    have eq: "10 * (10 ^ (9 + k) * (1 - 2 * eps64) ^ k) * (1 - 2 * eps64)
        = 10 ^ (9 + Suc k) * (1 - 2 * eps64) ^ Suc k"
    proof -
      have p10: "(10 :: real) ^ (9 + Suc k) = 10 * 10 ^ (9 + k)"
        by (simp only: add_Suc_right power_Suc)
      have pe: "(1 - 2 * eps64) ^ Suc k = (1 - 2 * eps64) * (1 - 2 * eps64) ^ k"
        by (simp only: power_Suc)
      show ?thesis unfolding p10 pe by (simp only: mult_ac)
    qed
    have s: "((\<lambda>r. fmul r (Fin 10)) ^^ Suc k) (Fin (10 ^ 9)) = fmul (Fin c) (Fin 10)"
      using c by simp
    from times_ten_step [OF one low nn]
    have "fmul (Fin c) (Fin 10) = PInf \<or>
         (\<exists>c'. fmul (Fin c) (Fin 10) = Fin c' \<and> 1 \<le> c' \<and> c' \<le> max64 \<and>
               10 ^ (9 + Suc k) * (1 - 2 * eps64) ^ Suc k \<le> c')"
      by (simp only: eq)
    then show ?thesis unfolding s .
  qed
qed

lemma power_of_ten_cases:
  "power_of_ten n = PInf \<or> (\<exists>s. power_of_ten n = Fin s \<and> 1 \<le> s \<and> s \<le> max64)"
proof (cases "n < 9")
  case True
  have "(10 :: real) ^ n \<le> 10 ^ 9" using True by (intro power_increasing) simp_all
  then have "(10 :: real) ^ n \<le> max64" by (simp add: max64_def)
  with True show ?thesis by (simp add: power_of_ten_def)
next
  case False
  with times_ten_chain [of "n - 9"] show ?thesis
    by (auto simp: power_of_ten_def)
qed

lemma power_of_ten_309: "power_of_ten 309 = PInf"
proof -
  from times_ten_chain [of 300] show ?thesis
  proof
    assume "((\<lambda>r. fmul r (Fin 10)) ^^ 300) (Fin (10 ^ 9)) = PInf"
    then show ?thesis by (simp add: power_of_ten_def)
  next
    assume "\<exists>c. ((\<lambda>r. fmul r (Fin 10)) ^^ 300) (Fin (10 ^ 9)) = Fin c \<and> 1 \<le> c \<and>
               c \<le> max64 \<and> 10 ^ (9 + 300) * (1 - 2 * eps64) ^ 300 \<le> c"
    then obtain c where up: "c \<le> max64"
      and low: "10 ^ (9 + 300) * (1 - 2 * eps64) ^ 300 \<le> c"
      by blast
    have "1 + real 300 * (- (2 * eps64)) \<le> (1 + (- (2 * eps64))) ^ 300"
      by (rule Bernoulli_inequality) (use eps64_small(2) in simp)
    then have "1 - 600 * eps64 \<le> (1 - 2 * eps64) ^ 300" by simp
    then have "10 ^ 309 * (1 - 600 * eps64) \<le> 10 ^ 309 * (1 - 2 * eps64) ^ 300"
      by (rule mult_left_mono) simp
    with low have "10 ^ 309 * (1 - 600 * eps64) \<le> c" by simp
    moreover have "max64 < 10 ^ 309 * (1 - 600 * eps64)"
      by (simp add: max64_def eps64_def)
    ultimately show ?thesis using up by linarith
  qed
qed

lemma round1_309: "round1 309 (Fin a) = NaN"
  by (simp add: round1_def power_of_ten_309)

subsection \<open>What a successful call of cst2coords went through\<close>

lemma length_np_half [simp]: "length (np_half xs) = length xs"
  by (simp add: np_half_def)

lemma nth_np_half [simp]: "i < length xs \<Longrightarrow> np_half xs ! i = fdiv (xs ! i) (Fin 2)"
  by (simp add: np_half_def)

lemma np_half_map2_add:
  "np_half (map2 fadd ys ts) = map2 (\<lambda>u l. fdiv (fadd u l) (Fin 2)) ys ts"
  by (auto simp: np_half_def)


lemma cst2coords_InrD:
  assumes "cst2coords cst a_ca a_th t_te n = Inr (x, y_u, y_l, y_c, t)"
  shows "cosspace 0 1 n = Inr x" and "cst x a_ca None (Some (Fin 1)) = Inr y_c"
    and "cst x a_th (Some (Fin 0, t_te)) None = Inr t"
    and "np_add y_c (np_half t) = Inr y_u" and "np_sub y_c (np_half t) = Inr y_l"
  using assms unfolding cst2coords_def by (auto split: sum.splits)

lemma cst2coords_shapes:
  assumes "grid_shaped cst"
      and "cst2coords cst a_ca a_th t_te n = Inr (x, y_u, y_l, y_c, t)"
  shows "length y_c = length x" and "length t = length x"
    and "y_u = map2 fadd y_c (np_half t)"
    and "y_l = map2 fsub y_c (np_half t)"
proof -
  note d = cst2coords_InrD [OF assms(2)]
  from assms(1) d(2) show lc: "length y_c = length x"
    unfolding grid_shaped_def by blast
  from assms(1) d(3) show lt: "length t = length x"
    unfolding grid_shaped_def by blast
  from d(4) lc lt show "y_u = map2 fadd y_c (np_half t)"
    by (simp add: np_add_def broadcast2_def)
  from d(5) lc lt show "y_l = map2 fsub y_c (np_half t)"
    by (simp add: np_sub_def broadcast2_def)
qed


lemma cosspace_Inr:
  "2 \<le> N \<Longrightarrow> cosspace lo hi N =
     Inr (map Fin
            (map (\<lambda>i. lo + (hi - lo) * (1 - cos (pi * real i / real_of_int (N - 1))) / 2)
               [0..<nat N]))"
  by (simp add: cosspace_def)

lemma cosspace_0_1_3: "cosspace 0 1 3 = Inr [Fin 0, Fin (1 / 2), Fin 1]"
  by (simp add: cosspace_def upt_rec numeral_2_eq_2 numeral_3_eq_3)


subsection \<open>The stand-ins at concrete inputs\<close>

lemma grid_shaped_cst_std: "grid_shaped cst_std"
  by (auto simp: grid_shaped_def cst_std_def Let_def split: option.splits)

lemma shape_single: "shape [c] v = c"
  by (simp add: shape_def)

lemma cst2coords_example:
  "cst2coords cst_std [Fin 1] [Fin 0] (Fin (1 / 2)) 3
     = Inr ([Fin 0, Fin (1 / 2), Fin 1], [Fin 0, Fin (3 / 8), Fin (1 / 4)],
            [Fin 0, Fin (1 / 8), Fin (- (1 / 4))], [Fin 0, Fin (1 / 4), Fin 0],
            [Fin 0, Fin (1 / 4), Fin (1 / 2)])"
  by (simp add: cst2coords_def cosspace_0_1_3 cst_std_def shape_single np_add_def np_sub_def
      broadcast2_def np_half_def rnd64_examples)

lemma example_inputs_simps:
  "example_inputs ''a_ca'' = Some [Fin 1]" "example_inputs ''a_th'' = Some [Fin 0]"
  "example_inputs ''t_te'' = Some [Fin (1 / 2)]"
  "example_inputs_long ''a_ca'' = Some [Fin 1]" "example_inputs_long ''a_th'' = Some [Fin 0]"
  "example_inputs_long ''t_te'' = Some [Fin (1 / 2), Fin 7]"
  by (simp_all add: example_inputs_def example_inputs_long_def)

lemma compute_coords_example:
  "compute_coords cst_std default_options example_inputs None (Some 3)
     = Inr ([Fin 0, Fin (1 / 2), Fin 1], [Fin 0, Fin (3 / 8), Fin (1 / 4)],
            [Fin 0, Fin (1 / 8), Fin (- (1 / 4))], [Fin 0, Fin (1 / 4), Fin 0],
            [Fin 0, Fin (1 / 4), Fin (1 / 2)])"
  by (simp add: compute_coords_def getitem_def first_def example_inputs_simps
      cst2coords_example)

lemma compute_coords_example_long:
  "compute_coords cst_std default_options example_inputs_long None (Some 3)
     = Inr ([Fin 0, Fin (1 / 2), Fin 1], [Fin 0, Fin (3 / 8), Fin (1 / 4)],
            [Fin 0, Fin (1 / 8), Fin (- (1 / 4))], [Fin 0, Fin (1 / 4), Fin 0],
            [Fin 0, Fin (1 / 4), Fin (1 / 2)])"
  by (simp add: compute_coords_def getitem_def first_def example_inputs_simps
      cst2coords_example)

lemma round1_2_examples:
  "round1 2 (Fin 0) = Fin 0" "round1 2 (Fin (1 / 2)) = Fin (1 / 2)" "round1 2 (Fin 1) = Fin 1"
  "round1 2 (Fin (1 / 4)) = Fin (1 / 4)" "round1 2 (Fin (- (1 / 4))) = Fin (- (1 / 4))"
  "round1 2 (Fin (3 / 8)) = Fin (3422735716801577 / 2 ^ 53)"
  "round1 2 (Fin (1 / 8)) = Fin (1080863910568919 / 2 ^ 53)"
  using rnd64_decimals
  by (simp_all add: round1_def power_of_ten_small rnd64_examples rint_examples)

lemma compute_coords_example_rounded:
  "compute_coords cst_std default_options example_inputs (Some 2) (Some 3)
     = Inr ([Fin 0, Fin (1 / 2), Fin 1],
            [Fin 0, Fin (3422735716801577 / 2 ^ 53), Fin (1 / 4)],
            [Fin 0, Fin (1080863910568919 / 2 ^ 53), Fin (- (1 / 4))],
            [Fin 0, Fin (1 / 4), Fin 0], [Fin 0, Fin (1 / 4), Fin (1 / 2)])"
  by (simp add: compute_coords_def getitem_def first_def example_inputs_simps
      cst2coords_example np_round_def round1_2_examples)

lemma compute_coords_example_nan:
  "compute_coords cst_std default_options example_inputs (Some 309) (Some 3)
     = Inr ([NaN, NaN, NaN], [NaN, NaN, NaN], [NaN, NaN, NaN], [NaN, NaN, NaN],
            [NaN, NaN, NaN])"
  by (simp add: compute_coords_def getitem_def first_def example_inputs_simps
      cst2coords_example np_round_def round1_309)

subsection \<open>Rounding to decimals\<close>

lemma rnd64_cases: "rnd64 y = Fin (rne y) \<or> rnd64 y = PInf \<or> rnd64 y = NInf"
  by (simp add: rnd64_def Let_def)

lemma rnd64_pow10:
  assumes "n \<le> 22"
  shows "rnd64 (10 ^ n) = Fin (10 ^ n)"
proof -
  have "(5 :: int) ^ n \<le> 5 ^ 22" using assms by (intro power_increasing) simp_all
  then have a: "\<bar>5 ^ n :: int\<bar> < 2 ^ 53" by simp
  have e: "of_int (5 ^ n) * pow2 (int n) = (10 :: real) ^ n"
    by (simp add: pow2_def flip: power_mult_distrib)
  from rnd64_exact [OF a, of "int n"] assms show ?thesis unfolding e by simp
qed

lemma times_ten_exact:
  "k \<le> 13 \<Longrightarrow> ((\<lambda>r. fmul r (Fin 10)) ^^ k) (Fin (10 ^ 9)) = Fin (10 ^ (9 + k))"
proof (induction k)
  case 0
  show ?case by simp
next
  case (Suc k)
  then have ih: "((\<lambda>r. fmul r (Fin 10)) ^^ k) (Fin (10 ^ 9)) = Fin (10 ^ (9 + k))" by simp
  have p10: "(10 :: real) ^ (9 + k) * 10 = 10 ^ (9 + Suc k)"
    by (simp only: add_Suc_right power_Suc mult_ac)
  have "((\<lambda>r. fmul r (Fin 10)) ^^ Suc k) (Fin (10 ^ 9)) = fmul (Fin (10 ^ (9 + k))) (Fin 10)"
    using ih by simp
  also have "\<dots> = rnd64 (10 ^ (9 + Suc k))" unfolding p10 [symmetric] by (simp only: fmul.simps)
  also have "\<dots> = Fin (10 ^ (9 + Suc k))" using Suc.prems by (intro rnd64_pow10) simp
  finally show ?case .
qed

lemma power_of_ten_exact: "n \<le> 22 \<Longrightarrow> power_of_ten n = Fin (10 ^ n)"
  using times_ten_exact [of "n - 9"] by (cases "n < 9") (simp_all add: power_of_ten_def)

lemma round1_rounded_elem: "rounded_elem p v (round1 p v)"
proof -
  let ?f = "power_of_ten (nat \<bar>p\<bar>)"
  let ?m = "if 0 \<le> p then fmul v ?f else fdiv v ?f"
  show ?thesis
  proof (cases ?m)
    case (Fin a)
    have "nearest_int a (rint a)" by (rule nearest_int_rint)
    with Fin show ?thesis
      by (auto simp: rounded_elem_def round1_def Let_def split: if_splits)
  qed (auto simp: rounded_elem_def round1_def Let_def split: if_splits)
qed

lemma np_round_rounded_to:
  assumes "np_round xs p = Inr ys"
  shows "rounded_to p xs ys"
  using assms round1_rounded_elem
  by (auto simp: np_round_def rounded_to_def split: if_splits)

lemma round1_close:
  assumes "0 \<le> p" and "power_of_ten (nat p) = Fin s" and "1 \<le> s"
      and "round1 p (Fin a) = Fin b"
  shows "\<bar>b - a\<bar> \<le> (1 + eps64) / (2 * s) + 3 * eps64 * \<bar>a\<bar> + 3 * eta64"
proof -
  from assms(1,2,4) have r: "fdiv (frint (rnd64 (a * s))) (Fin s) = Fin b"
    by (simp add: round1_def)
  from assms(3) have s0: "s \<noteq> 0" "0 < s" by simp_all
  define m where "m = rne (a * s)"
  from rnd64_cases [of "a * s"] r s0 have "rnd64 (a * s) = Fin m"
    unfolding m_def by auto
  with r s0 have "rnd64 (of_int (rint m) / s) = Fin b" by simp
  from rnd64_FinD [OF this] have b: "b = rne (of_int (rint m) / s)" by simp
  define q where "q = of_int (rint m) / s"
  define h where "h = 1 / (2 * s)"
  define A where "A = \<bar>a\<bar>"
  have h0: "0 \<le> h" "h \<le> 1 / 2" using assms(3) by (simp_all add: h_def field_simps)
  have A0: "0 \<le> A" by (simp add: A_def)
  have e1: "\<bar>m - a * s\<bar> \<le> eps64 * \<bar>a * s\<bar> + eta64" unfolding m_def by (rule rne_error)
  have "\<bar>m / s - a\<bar> = \<bar>m - a * s\<bar> / s" using s0 by (simp add: field_simps abs_if)
  also have "\<dots> \<le> (eps64 * \<bar>a * s\<bar> + eta64) / s" using e1 s0 by (simp add: divide_right_mono)
  also have "\<dots> = eps64 * A + eta64 / s" using s0 by (simp add: A_def abs_mult field_simps)
  also have "\<dots> \<le> eps64 * A + eta64"
  proof -
    have "eta64 / s \<le> eta64 / 1" using assms(3) eps64_small(4)
      by (intro divide_left_mono) simp_all
    then show ?thesis by simp
  qed
  finally have d1: "\<bar>m / s - a\<bar> \<le> eps64 * A + eta64" .
  have "\<bar>q - m / s\<bar> = \<bar>of_int (rint m) - m\<bar> / s" using s0 by (simp add: q_def field_simps abs_if)
  also have "\<dots> \<le> (1 / 2) / s" using rint_error [of m] s0 by (intro divide_right_mono) simp_all
  also have "\<dots> = h" by (simp add: h_def)
  finally have d2: "\<bar>q - m / s\<bar> \<le> h" .
  have d3: "\<bar>b - q\<bar> \<le> eps64 * \<bar>q\<bar> + eta64" unfolding b q_def by (rule rne_error)
  from d1 d2 have qa: "\<bar>q - a\<bar> \<le> h + eps64 * A + eta64" by linarith
  then have "\<bar>q\<bar> \<le> A + h + eps64 * A + eta64" unfolding A_def by linarith
  then have "eps64 * \<bar>q\<bar> \<le> eps64 * (A + h + eps64 * A + eta64)"
    using eps64_small(1) by (intro mult_left_mono) simp_all
  also have "\<dots> = eps64 * A + eps64 * h + eps64 * (eps64 * A) + eps64 * eta64"
    by (simp add: algebra_simps)
  finally have q1: "eps64 * \<bar>q\<bar> \<le> eps64 * A + eps64 * h + eps64 * (eps64 * A) + eps64 * eta64" .
  have ea: "0 \<le> eps64 * A" using eps64_small(1) A0 by simp
  have "eps64 * (eps64 * A) \<le> 1 * (eps64 * A)"
    using eps64_small(1,2) ea by (intro mult_right_mono) simp_all
  then have q2: "eps64 * (eps64 * A) \<le> eps64 * A" by simp
  have "eps64 * eta64 \<le> 1 * eta64"
    using eps64_small by (intro mult_right_mono) simp_all
  then have q3: "eps64 * eta64 \<le> eta64" by simp
  from d3 qa q1 q2 q3 have "\<bar>b - a\<bar> \<le> h + eps64 * h + 3 * (eps64 * A) + 3 * eta64"
    by linarith
  moreover have "h + eps64 * h = (1 + eps64) / (2 * s)"
    using s0 by (simp add: h_def field_simps)
  ultimately show ?thesis unfolding A_def by simp
qed

lemma np_round_decimal_close:
  assumes "np_round xs p = Inr ys" and "0 \<le> p" and "p \<le> 22"
  shows "decimal_close p xs ys"
proof -
  from assms(2,3) have f: "power_of_ten (nat p) = Fin (10 ^ nat p)"
    by (intro power_of_ten_exact) simp
  have s: "(1 :: real) \<le> 10 ^ nat p" by simp
  from assms(1) have ys: "ys = map (round1 p) xs" by (auto simp: np_round_def split: if_splits)
  show ?thesis
    unfolding decimal_close_def ys
    using round1_close [OF assms(2) f s] by auto
qed

lemma compute_coords_None:
  assumes "getitem inputs ''a_ca'' = Inr a_ca" and "getitem inputs ''a_th'' = Inr a_th"
      and "getitem inputs ''t_te'' = Inr (t_te # rest)"
      and "cst2coords cst a_ca a_th t_te (case n of None \<Rightarrow> opt_n_coords self | Some k \<Rightarrow> k)
             = Inr (x, y_u, y_l, y_c, t)"
  shows "compute_coords cst self inputs None n = Inr (x, y_u, y_l, y_c, t)"
  using assms by (simp add: compute_coords_def first_def)

lemma compute_coords_Some:
  assumes "getitem inputs ''a_ca'' = Inr a_ca" and "getitem inputs ''a_th'' = Inr a_th"
      and "getitem inputs ''t_te'' = Inr (t_te # rest)"
      and "cst2coords cst a_ca a_th t_te (case n of None \<Rightarrow> opt_n_coords self | Some k \<Rightarrow> k)
             = Inr (x, y_u, y_l, y_c, t)"
      and "- (2 ^ 31) \<le> p" and "p < 2 ^ 31"
  shows "compute_coords cst self inputs (Some p) n
           = Inr (map (round1 p) x, map (round1 p) y_u, map (round1 p) y_l,
                  map (round1 p) y_c, map (round1 p) t)"
    and "np_round x p = Inr (map (round1 p) x)"
    and "np_round y_u p = Inr (map (round1 p) y_u)"
    and "np_round y_l p = Inr (map (round1 p) y_l)"
    and "np_round y_c p = Inr (map (round1 p) y_c)"
    and "np_round t p = Inr (map (round1 p) t)"
  using assms by (simp_all add: compute_coords_def first_def np_round_def)


lemma example_inputs_te_simps:
  "example_inputs_te ''a_ca'' = Some [Fin 1]" "example_inputs_te ''a_th'' = Some [Fin 0]"
  "example_inputs_te ''t_te'' = Some [Fin (3011782250804019 / 2 ^ 50)]"
  by (simp_all add: example_inputs_te_def)

lemma rnd64_te:
  "rnd64 (3011782250804019 / 2 ^ 52) = Fin (3011782250804019 / 2 ^ 52)"
  "rnd64 (3011782250804019 / 2 ^ 51) = Fin (3011782250804019 / 2 ^ 51)"
  "rnd64 (- (3011782250804019 / 2 ^ 51)) = Fin (- (3011782250804019 / 2 ^ 51))"
  "rnd64 (4137682157646643 / 2 ^ 52) = Fin (4137682157646643 / 2 ^ 52)"
  "rnd64 (- (1885882343961395 / 2 ^ 52)) = Fin (- (1885882343961395 / 2 ^ 52))"
  using rnd64_dyadic [of 3011782250804019 52] rnd64_dyadic [of 3011782250804019 51]
    rnd64_dyadic [of "- 3011782250804019" 51] rnd64_dyadic [of 4137682157646643 52]
    rnd64_dyadic [of "- 1885882343961395" 52]
  by simp_all

lemma cst2coords_te:
  "cst2coords cst_std [Fin 1] [Fin 0] (Fin (3011782250804019 / 2 ^ 50)) 3
     = Inr ([Fin 0, Fin (1 / 2), Fin 1],
            [Fin 0, Fin (4137682157646643 / 2 ^ 52), Fin (3011782250804019 / 2 ^ 51)],
            [Fin 0, Fin (- (1885882343961395 / 2 ^ 52)), Fin (- (3011782250804019 / 2 ^ 51))],
            [Fin 0, Fin (1 / 4), Fin 0],
            [Fin 0, Fin (3011782250804019 / 2 ^ 51), Fin (3011782250804019 / 2 ^ 50)])"
  using rnd64_te
  by (simp add: cst2coords_def cosspace_0_1_3 cst_std_def shape_single np_add_def np_sub_def
      broadcast2_def np_half_def rnd64_examples)

lemma round1_te:
  "round1 2 (Fin (3011782250804019 / 2 ^ 50)) = Fin (6034823500676465 / 2 ^ 51)"
proof -
  have a: "rnd64 (3011782250804019 / 2 ^ 50 * 100) = Fin (535 / 2)"
    by (rule rnd64_eqI [where e = 8]) (simp_all add: pow2_def rint_def Let_def max64_def)
  have b: "rint (535 / 2) = 268" by (simp add: rint_def Let_def)
  have c: "rnd64 (268 / 100) = Fin (6034823500676465 / 2 ^ 51)"
    by (rule rnd64_eqI [where e = 1]) (simp_all add: pow2_def rint_def Let_def max64_def)
  from a b c show ?thesis by (simp add: round1_def power_of_ten_small)
qed

subsection \<open>The parameter grid\<close>

lemma cos_grid_antimono:
  assumes "i \<le> j" and "int j < N" and "2 \<le> N"
  shows "cos (pi * real j / real_of_int (N - 1)) \<le> cos (pi * real i / real_of_int (N - 1))"
proof -
  from assms(3) have pos: "0 < real_of_int (N - 1)" by simp
  have a: "0 \<le> pi * real i / real_of_int (N - 1)"
    using pos by simp
  have "real i \<le> real j" using assms(1) by simp
  then have b: "pi * real i / real_of_int (N - 1) \<le> pi * real j / real_of_int (N - 1)"
    using pos by (simp add: divide_right_mono mult_left_mono)
  have "real j \<le> real_of_int (N - 1)" using assms(2) by simp
  then have "pi * real j \<le> pi * real_of_int (N - 1)"
    by (simp add: mult_left_mono)
  then have c: "pi * real j / real_of_int (N - 1) \<le> pi"
    using pos by (simp add: pos_divide_le_eq)
  from a b c show ?thesis by (rule cos_monotone_0_pi_le)
qed

lemma cos_grid_sorted:
  assumes "lo \<le> hi" and "2 \<le> N"
  shows "sorted (map (\<lambda>i. lo + (hi - lo) * (1 - cos (pi * real i / real_of_int (N - 1))) / 2)
            [0..<nat N])"
proof -
  have "lo + (hi - lo) * (1 - cos (pi * real i / real_of_int (N - 1))) / 2
      \<le> lo + (hi - lo) * (1 - cos (pi * real j / real_of_int (N - 1))) / 2"
    if "i \<le> j" and "j < nat N" for i j
  proof -
    from that have "int j < N" by simp
    with that(1) have "cos (pi * real j / real_of_int (N - 1))
        \<le> cos (pi * real i / real_of_int (N - 1))"
      using assms(2) by (rule cos_grid_antimono)
    then have "1 - cos (pi * real i / real_of_int (N - 1))
        \<le> 1 - cos (pi * real j / real_of_int (N - 1))" by simp
    with assms(1) have "(hi - lo) * (1 - cos (pi * real i / real_of_int (N - 1)))
        \<le> (hi - lo) * (1 - cos (pi * real j / real_of_int (N - 1)))"
      by (simp add: mult_left_mono)
    then show ?thesis by simp
  qed
  then show ?thesis
    by (simp add: sorted_iff_nth_mono)
qed

lemma cos_grid_last:
  assumes "2 \<le> N"
  shows "lo + (hi - lo) * (1 - cos (pi * real (nat N - 1) / real_of_int (N - 1))) / 2 = hi"
proof -
  from assms have "real (nat N - 1) = real_of_int (N - 1)" by simp
  moreover from assms have "real_of_int (N - 1) \<noteq> 0" by simp
  ultimately have e: "pi * real (nat N - 1) / real_of_int (N - 1) = pi" by simp
  show ?thesis unfolding e by (simp add: field_simps)
qed

lemma cos_grid:
  assumes "2 \<le> N"
      and "g = map (\<lambda>i. lo + (hi - lo) * (1 - cos (pi * real i / real_of_int (N - 1))) / 2)
                 [0..<nat N]"
  shows "cosspace lo hi N = Inr (map Fin g) \<and> int (length g) = N \<and>
      (\<forall>i<nat N. g ! i = lo + (hi - lo) * (1 - cos (pi * real i / real_of_int (N - 1))) / 2) \<and>
      hd g = lo \<and> last g = hi \<and> (lo \<le> hi \<longrightarrow> sorted g)"
proof -
  let ?f = "\<lambda>i. lo + (hi - lo) * (1 - cos (pi * real i / real_of_int (N - 1))) / 2"
  from assms(1) have n: "0 < nat N" by simp
  have 1: "cosspace lo hi N = Inr (map Fin g)"
    unfolding assms(2) using assms(1) by (rule cosspace_Inr)
  have 2: "int (length g) = N" using assms(1) by (simp add: assms(2))
  have 3: "\<forall>i<nat N. g ! i = ?f i" by (simp add: assms(2))
  have 4: "hd g = lo" using n by (simp add: assms(2) hd_map upt_conv_Cons)
  have "last g = ?f (nat N - 1)" using n by (simp add: assms(2) last_map)
  also have "\<dots> = hi" using assms(1) by (rule cos_grid_last)
  finally have 5: "last g = hi" .
  have 6: "sorted g" if "lo \<le> hi" unfolding assms(2) using that assms(1) by (rule cos_grid_sorted)
  from 1 2 3 4 5 6 show ?thesis by blast
qed

text \<open>
  Claim C5. For every count \<open>N\<close> of at least two, the grid \<open>x\<close> that a call of
  \<open>cst2coords\<close> returns has \<open>N\<close> values, the \<open>i\<close>-th of them
  \<open>(1 - cos (pi * i / (N - 1))) / 2\<close>, it starts at 0, ends at 1 and is
  non-decreasing. It is the grid of the generator for the bounds 0 and 1; for any
  bounds the generator returns \<open>N\<close> values, the \<open>i\<close>-th of them given by the cosine
  rule, starting at \<open>lo\<close> and ending at \<open>hi\<close>, and non-decreasing when \<open>lo \<le> hi\<close>.
\<close>

theorem cosspace_grid:
  assumes "2 \<le> N"
  shows "(cst2coords cst a_ca a_th t_te N = Inr (x, y_u, y_l, y_c, t) \<longrightarrow>
            (\<exists>g. x = map Fin g \<and> int (length g) = N \<and>
               (\<forall>i<nat N. g ! i = (1 - cos (pi * real i / real_of_int (N - 1))) / 2) \<and>
               hd g = 0 \<and> last g = 1 \<and> sorted g)) \<and>
         (\<exists>g. cosspace lo hi N = Inr (map Fin g) \<and> int (length g) = N \<and>
            (\<forall>i<nat N. g ! i
               = lo + (hi - lo) * (1 - cos (pi * real i / real_of_int (N - 1))) / 2) \<and>
            hd g = lo \<and> last g = hi \<and> (lo \<le> hi \<longrightarrow> sorted g))"
proof -
  let ?g = "map (\<lambda>i. lo + (hi - lo) * (1 - cos (pi * real i / real_of_int (N - 1))) / 2)
              [0..<nat N]"
  let ?u = "map (\<lambda>i. 0 + (1 - 0) * (1 - cos (pi * real i / real_of_int (N - 1))) / 2)
              [0..<nat N]"
  note a = cos_grid [OF assms, of ?g, OF refl]
  have u: "cosspace 0 1 N = Inr (map Fin ?u) \<and> int (length ?u) = N \<and>
      (\<forall>i<nat N. ?u ! i = 0 + (1 - 0) * (1 - cos (pi * real i / real_of_int (N - 1))) / 2) \<and>
      hd ?u = 0 \<and> last ?u = 1 \<and> ((0 :: real) \<le> 1 \<longrightarrow> sorted ?u)"
    by (rule cos_grid [OF assms]) simp
  have b: "\<exists>g. x = map Fin g \<and> int (length g) = N \<and>
      (\<forall>i<nat N. g ! i = (1 - cos (pi * real i / real_of_int (N - 1))) / 2) \<and>
      hd g = 0 \<and> last g = 1 \<and> sorted g"
    if "cst2coords cst a_ca a_th t_te N = Inr (x, y_u, y_l, y_c, t)"
  proof -
    from cst2coords_InrD(1) [OF that] u have "x = map Fin ?u" by simp
    moreover from u have "int (length ?u) = N \<and>
      (\<forall>i<nat N. ?u ! i = (1 - cos (pi * real i / real_of_int (N - 1))) / 2) \<and>
      hd ?u = 0 \<and> last ?u = 1 \<and> sorted ?u" by simp
    ultimately show ?thesis by blast
  qed
  from a b show ?thesis by blast
qed

text \<open>
  The grid of three points over the bounds 0 and 1 is \<open>[0, 1/2, 1]\<close>, and it is the
  grid that \<open>cst2coords\<close> returns for three samples.
\<close>

theorem cosspace_grid_witness:
  "(2::int) \<le> 3 \<and> (0::real) \<le> 1 \<and> cosspace 0 1 3 = Inr (map Fin [0, 1 / 2, 1]) \<and>
   int (length [0 :: real, 1 / 2, 1]) = 3 \<and> hd [0 :: real, 1 / 2, 1] = 0 \<and>
   last [0 :: real, 1 / 2, 1] = 1 \<and> sorted [0 :: real, 1 / 2, 1] \<and>
   cst2coords cst_std [Fin 1] [Fin 0] (Fin (1 / 2)) 3
     = Inr (map Fin [0, 1 / 2, 1], [Fin 0, Fin (3 / 8), Fin (1 / 4)],
            [Fin 0, Fin (1 / 8), Fin (- (1 / 4))], [Fin 0, Fin (1 / 4), Fin 0],
            [Fin 0, Fin (1 / 4), Fin (1 / 2)])"
  using cosspace_grid [where N = 3 and lo = 0 and hi = 1 and cst = cst_std
      and a_ca = "[Fin 1]" and a_th = "[Fin 0]" and t_te = "Fin (1 / 2)"] cst2coords_example
  by (simp add: cosspace_0_1_3)

text \<open>
  Claim C9. A sample count below two is rejected by the grid generator with an
  invalid-argument failure, and so is every call of \<open>cst2coords\<close> with such a count.
\<close>

theorem cosspace_rejects:
  assumes "N < 2"
  shows "cosspace lo hi N = Inl InvalidArgument \<and>
         cst2coords cst a_ca a_th t_te N = Inl InvalidArgument"
  using assms by (simp add: cosspace_def cst2coords_def)

text \<open>A single sample is rejected.\<close>

theorem cosspace_rejects_witness:
  "(1::int) < 2 \<and> cosspace 0 1 1 = Inl InvalidArgument \<and>
   cst2coords cst_std [Fin 1] [Fin 0] (Fin (1 / 2)) 1 = Inl InvalidArgument"
  using cosspace_rejects [of 1 0 1 cst_std "[Fin 1]" "[Fin 0]" "Fin (1 / 2)"] by simp

subsection \<open>Lengths of the output\<close>






subsection \<open>The trailing-edge input\<close>

lemma first_take: "first (take 1 a) = first a"
  by (cases a) (simp_all add: first_def)

lemma first_item_agrees:
  assumes "map_option (take 1) (inputs k) = map_option (take 1) (inputs' k)"
  shows "(case getitem inputs k of Inl e \<Rightarrow> Inl e | Inr a \<Rightarrow> first a)
       = (case getitem inputs' k of Inl e \<Rightarrow> Inl e | Inr a \<Rightarrow> first a)"
proof (cases "inputs k")
  case None
  with assms have "inputs' k = None" by simp
  with None show ?thesis by (simp add: getitem_def)
next
  case (Some a)
  with assms obtain a' where a': "inputs' k = Some a'" and "take 1 a = take 1 a'"
    by (cases "inputs' k") auto
  then have "first a = first a'" by (metis first_take)
  with Some a' show ?thesis by (simp add: getitem_def)
qed

lemma compute_coords_alt:
  "compute_coords cst self inputs precision n =
     (case getitem inputs ''a_ca'' of Inl e \<Rightarrow> Inl e | Inr a_ca \<Rightarrow>
      (case getitem inputs ''a_th'' of Inl e \<Rightarrow> Inl e | Inr a_th \<Rightarrow>
      (case (case getitem inputs ''t_te'' of Inl e \<Rightarrow> Inl e | Inr a \<Rightarrow> first a) of
        Inl e \<Rightarrow> Inl e
      | Inr t_te \<Rightarrow>
      (case cst2coords cst a_ca a_th t_te
             (case n of None \<Rightarrow> opt_n_coords self | Some k \<Rightarrow> k) of
        Inl e \<Rightarrow> Inl e
      | Inr (x, y_u, y_l, y_c, t) \<Rightarrow>
          (case precision of
             Some p \<Rightarrow>
               (case np_round x p of Inl e \<Rightarrow> Inl e | Inr x' \<Rightarrow>
               (case np_round y_u p of Inl e \<Rightarrow> Inl e | Inr y_u' \<Rightarrow>
               (case np_round y_l p of Inl e \<Rightarrow> Inl e | Inr y_l' \<Rightarrow>
               (case np_round y_c p of Inl e \<Rightarrow> Inl e | Inr y_c' \<Rightarrow>
               (case np_round t p of Inl e \<Rightarrow> Inl e | Inr t' \<Rightarrow>
                Inr (x', y_u', y_l', y_c', t'))))))
           | None \<Rightarrow> Inr (x, y_u, y_l, y_c, t))))))"
  by (simp add: compute_coords_def split: sum.splits)

text \<open>
  Claim C10. Two inputs dictionaries that agree on \<open>a_ca\<close>, on \<open>a_th\<close> and on the
  first element of \<open>t_te\<close> give the same result of \<open>compute_coords\<close>, for the same
  precision and sample count, whatever else \<open>t_te\<close> holds.
\<close>

theorem compute_coords_first_t_te:
  assumes "inputs ''a_ca'' = inputs' ''a_ca''" and "inputs ''a_th'' = inputs' ''a_th''"
      and "map_option (take 1) (inputs ''t_te'') = map_option (take 1) (inputs' ''t_te'')"
  shows "compute_coords cst self inputs precision n
       = compute_coords cst self inputs' precision n"
proof -
  from assms(1) have a: "getitem inputs ''a_ca'' = getitem inputs' ''a_ca''"
    by (simp add: getitem_def)
  from assms(2) have b: "getitem inputs ''a_th'' = getitem inputs' ''a_th''"
    by (simp add: getitem_def)
  note c = first_item_agrees [of inputs "''t_te''" inputs', OF assms(3)]
  show ?thesis unfolding compute_coords_alt a b c ..
qed

text \<open>
  The inputs with \<open>t_te = [1/2, 7]\<close> and those with \<open>t_te = [1/2]\<close> give the same
  five sequences.
\<close>

theorem compute_coords_first_t_te_witness:
  "example_inputs_long ''t_te'' = Some [Fin (1 / 2), Fin 7] \<and>
   example_inputs ''t_te'' = Some [Fin (1 / 2)] \<and>
   compute_coords cst_std default_options example_inputs_long None (Some 3)
     = compute_coords cst_std default_options example_inputs None (Some 3) \<and>
   compute_coords cst_std default_options example_inputs_long None (Some 3)
     = Inr ([Fin 0, Fin (1 / 2), Fin 1], [Fin 0, Fin (3 / 8), Fin (1 / 4)],
            [Fin 0, Fin (1 / 8), Fin (- (1 / 4))], [Fin 0, Fin (1 / 4), Fin 0],
            [Fin 0, Fin (1 / 4), Fin (1 / 2)])"
  using compute_coords_first_t_te
      [of example_inputs_long example_inputs cst_std default_options None "Some 3"]
    compute_coords_example_long
  by (simp add: example_inputs_simps)

subsection \<open>The fit path\<close>

lemma coords2cst_eq_spec:
  assumes "length y_u = length x" and "length y_l = length x"
  shows "coords2cst fit x y_u y_l n_ca n_th = coords2cst_spec fit x y_u y_l n_ca n_th"
  using assms
  by (simp add: coords2cst_def coords2cst_spec_def np_add_def np_sub_def broadcast2_def
      np_half_map2_add Let_def)

text \<open>
  Claim C3. On arrays of one length \<open>coords2cst\<close> is the fit path of the
  specification: camber \<open>(y_u + y_l) / 2\<close> and thickness \<open>y_u - y_l\<close> point by point,
  the camber fitted with the boundary values \<open>(0, 0)\<close> and the first exponent 1, the
  thickness fitted with nothing but the count, and the second boundary value of the
  thickness fit returned as the trailing-edge thickness.
\<close>

theorem coords2cst_refines_spec:
  assumes "length y_u = length x" and "length y_l = length x"
  shows "coords2cst fit x y_u y_l n_ca n_th = coords2cst_spec fit x y_u y_l n_ca n_th"
  using assms by (rule coords2cst_eq_spec)

text \<open>
  On the grid \<open>[0, 1/2, 1]\<close> with the upper curve \<open>[1, 2, 1]\<close> and the lower curve
  \<open>[0, 0, 0]\<close> the thickness is \<open>[1, 2, 1]\<close>, and the trailing-edge thickness returned
  is its last sample, the second boundary value of the thickness fit.
\<close>

theorem coords2cst_refines_spec_witness:
  "length [Fin 1, Fin 2, Fin 1] = length [Fin 0, Fin (1 / 2), Fin 1] \<and>
   length [Fin 0, Fin 0, Fin 0] = length [Fin 0, Fin (1 / 2), Fin 1] \<and>
   coords2cst fit_ends [Fin 0, Fin (1 / 2), Fin 1] [Fin 1, Fin 2, Fin 1]
       [Fin 0, Fin 0, Fin 0] 2 2
     = Inr ([Fin 0, Fin 0], [Fin 0, Fin 0], Fin 1) \<and>
   coords2cst_spec fit_ends [Fin 0, Fin (1 / 2), Fin 1] [Fin 1, Fin 2, Fin 1]
       [Fin 0, Fin 0, Fin 0] 2 2
     = Inr ([Fin 0, Fin 0], [Fin 0, Fin 0], Fin 1)"
proof -
  have "coords2cst_spec fit_ends [Fin 0, Fin (1 / 2), Fin 1] [Fin 1, Fin 2, Fin 1]
       [Fin 0, Fin 0, Fin 0] 2 2
      = Inr ([Fin 0, Fin 0], [Fin 0, Fin 0], Fin 1)"
    by (simp add: coords2cst_spec_def fit_ends_def numeral_2_eq_2 rnd64_examples)
  with coords2cst_refines_spec [of "[Fin 1, Fin 2, Fin 1]" "[Fin 0, Fin (1 / 2), Fin 1]"
      "[Fin 0, Fin 0, Fin 0]" fit_ends 2 2]
  show ?thesis by simp
qed

text \<open>
  Claim C4, as amended. When \<open>y_u\<close> and \<open>y_l\<close> have different lengths and neither
  has length one, \<open>coords2cst\<close> fails with the shape error, whatever the grid and the
  fit are, and returns nothing.
\<close>

theorem coords2cst_shape_mismatch:
  assumes "length y_u \<noteq> length y_l" and "length y_u \<noteq> 1" and "length y_l \<noteq> 1"
  shows "coords2cst fit x y_u y_l n_ca n_th = Inl ShapeMismatch"
  using assms by (simp add: coords2cst_def np_add_def broadcast2_def)

text \<open>An upper curve of two samples against a lower curve of three.\<close>

theorem coords2cst_shape_mismatch_witness:
  "length [Fin 1, Fin 2] \<noteq> length [Fin 1, Fin 2, Fin 3] \<and> length [Fin 1, Fin 2] \<noteq> 1 \<and>
   length [Fin 1, Fin 2, Fin 3] \<noteq> 1 \<and>
   coords2cst fit_ends [Fin 0, Fin 1] [Fin 1, Fin 2] [Fin 1, Fin 2, Fin 3] 1 1
     = Inl ShapeMismatch"
  using coords2cst_shape_mismatch
    [of "[Fin 1, Fin 2]" "[Fin 1, Fin 2, Fin 3]" fit_ends "[Fin 0, Fin 1]" 1 1]
  by simp

text \<open>
  Claim C4 as stated asks for a failure whenever \<open>y_u\<close> or \<open>y_l\<close> differs in length
  from \<open>x\<close>. An upper curve of length one, against a grid and a lower curve of length
  two, is stretched: the fit receives the grid \<open>[0, 1]\<close>, the camber \<open>[1/2, 1/2]\<close> and
  the thickness \<open>[1, 1]\<close>, all of length two, and the call returns, although the fit
  used here rejects arrays of different lengths.
\<close>

theorem coords2cst_broadcasts:
  "length [Fin 1] \<noteq> length [Fin 0, Fin 1] \<and>
   coords2cst fit_ends [Fin 0, Fin 1] [Fin 1] [Fin 0, Fin 0] 1 1
     = Inr ([Fin 0], [Fin 0], Fin 1)"
  by (simp add: coords2cst_def np_add_def np_sub_def broadcast2_def np_half_def fit_ends_def
      rnd64_examples)

subsection \<open>The evaluate path\<close>

lemma fdiv_two_FinD:
  assumes "fdiv v (Fin 2) = Fin h"
  shows "\<exists>a. v = Fin a \<and> h = rne (a / 2)"
  using assms rnd64_FinD by (cases v) (auto split: if_splits)

lemma fadd_FinD:
  assumes "fadd (Fin c) w = Fin u"
  shows "\<exists>h. w = Fin h \<and> u = rne (c + h)"
  using assms rnd64_FinD by (cases w) auto

lemma fsub_FinD:
  assumes "fsub (Fin c) w = Fin l"
  shows "\<exists>h. w = Fin h \<and> l = rne (c - h)"
  using assms rnd64_FinD by (cases w) (auto simp: fsub_def)

lemma cst2coords_point:
  assumes "grid_shaped cst"
      and "cst2coords cst a_ca a_th t_te n = Inr (x, y_u, y_l, y_c, t)"
      and "i < length x"
  shows "y_u ! i = fadd (y_c ! i) (fdiv (t ! i) (Fin 2))"
    and "y_l ! i = fsub (y_c ! i) (fdiv (t ! i) (Fin 2))"
  using cst2coords_shapes [OF assms(1,2)] assms(3) by simp_all

lemma rounding_bounds:
  fixes c \<tau> :: real
  defines "h \<equiv> rne (\<tau> / 2)"
  defines "u \<equiv> rne (c + h)" and "l \<equiv> rne (c - h)"
  shows "\<bar>(u - l) - \<tau>\<bar> \<le> eps64 * (\<bar>c + h\<bar> + \<bar>c - h\<bar> + \<bar>\<tau>\<bar>) + 4 * eta64"
    and "\<bar>(u + l) / 2 - c\<bar> \<le> (eps64 * (\<bar>c + h\<bar> + \<bar>c - h\<bar>) + 2 * eta64) / 2"
proof -
  have e1: "\<bar>u - (c + h)\<bar> \<le> eps64 * \<bar>c + h\<bar> + eta64"
    unfolding u_def by (rule rne_error)
  have e2: "\<bar>l - (c - h)\<bar> \<le> eps64 * \<bar>c - h\<bar> + eta64"
    unfolding l_def by (rule rne_error)
  have "\<bar>h - \<tau> / 2\<bar> \<le> eps64 * \<bar>\<tau> / 2\<bar> + eta64"
    unfolding h_def by (rule rne_error)
  then have e3: "2 * \<bar>h - \<tau> / 2\<bar> \<le> eps64 * \<bar>\<tau>\<bar> + 2 * eta64" by simp
  have "(u - l) - \<tau> = (u - (c + h)) - (l - (c - h)) + 2 * (h - \<tau> / 2)" by simp
  then have "\<bar>(u - l) - \<tau>\<bar> \<le> \<bar>u - (c + h)\<bar> + \<bar>l - (c - h)\<bar> + 2 * \<bar>h - \<tau> / 2\<bar>"
    by linarith
  with e1 e2 e3 show "\<bar>(u - l) - \<tau>\<bar> \<le> eps64 * (\<bar>c + h\<bar> + \<bar>c - h\<bar> + \<bar>\<tau>\<bar>) + 4 * eta64"
    by (simp add: algebra_simps)
  have "(u + l) / 2 - c = ((u - (c + h)) + (l - (c - h))) / 2" by simp
  then have "\<bar>(u + l) / 2 - c\<bar> = \<bar>(u - (c + h)) + (l - (c - h))\<bar> / 2"
    by (simp only: abs_divide)
  also have "\<dots> \<le> (\<bar>u - (c + h)\<bar> + \<bar>l - (c - h)\<bar>) / 2"
    by (intro divide_right_mono abs_triangle_ineq) simp
  finally have "\<bar>(u + l) / 2 - c\<bar> \<le> (\<bar>u - (c + h)\<bar> + \<bar>l - (c - h)\<bar>) / 2" .
  with e1 e2 show "\<bar>(u + l) / 2 - c\<bar> \<le> (eps64 * (\<bar>c + h\<bar> + \<bar>c - h\<bar>) + 2 * eta64) / 2"
    by (simp add: algebra_simps)
qed

text \<open>
  Claim C2, as amended. Whenever \<open>cst2coords\<close> returns, with an evaluator that gives
  one value per grid point, then at every grid point where camber, thickness, upper and
  lower value are finite, the upper and the lower value are the camber plus and minus
  half the thickness, each rounded to a float: \<open>u = rne (c + h)\<close> and
  \<open>l = rne (c - h)\<close> with \<open>h = rne (\<tau> / 2)\<close>. So \<open>u - l\<close> is the thickness \<open>\<tau>\<close> and
  \<open>(u + l) / 2\<close> is the camber \<open>c\<close> up to these roundings, within the bounds stated,
  and exactly so where none of the three is rounded.
\<close>

theorem cst2coords_consistent:
  assumes "grid_shaped cst"
      and "cst2coords cst a_ca a_th t_te n = Inr (x, y_u, y_l, y_c, t)"
      and "i < length x"
      and "y_c ! i = Fin c" and "t ! i = Fin \<tau>" and "y_u ! i = Fin u" and "y_l ! i = Fin l"
  shows "u = rne (c + rne (\<tau> / 2)) \<and> l = rne (c - rne (\<tau> / 2)) \<and>
         \<bar>(u - l) - \<tau>\<bar>
           \<le> eps64 * (\<bar>c + rne (\<tau> / 2)\<bar> + \<bar>c - rne (\<tau> / 2)\<bar> + \<bar>\<tau>\<bar>) + 4 * eta64 \<and>
         \<bar>(u + l) / 2 - c\<bar>
           \<le> (eps64 * (\<bar>c + rne (\<tau> / 2)\<bar> + \<bar>c - rne (\<tau> / 2)\<bar>) + 2 * eta64) / 2 \<and>
         (rne (\<tau> / 2) = \<tau> / 2 \<and> rne (c + \<tau> / 2) = c + \<tau> / 2 \<and>
          rne (c - \<tau> / 2) = c - \<tau> / 2 \<longrightarrow> u - l = \<tau> \<and> (u + l) / 2 = c)"
proof -
  note p = cst2coords_point [OF assms(1,2,3)]
  from p(1) assms(4,5,6) have "fadd (Fin c) (fdiv (Fin \<tau>) (Fin 2)) = Fin u" by simp
  from fadd_FinD [OF this] obtain h where h: "fdiv (Fin \<tau>) (Fin 2) = Fin h"
    and u: "u = rne (c + h)" by blast
  from fdiv_two_FinD [OF h] have hh: "h = rne (\<tau> / 2)" by simp
  from p(2) assms(4,5,7) h have "fsub (Fin c) (Fin h) = Fin l" by simp
  from fsub_FinD [OF this] have l: "l = rne (c - h)" by simp
  from u l hh have ul: "u = rne (c + rne (\<tau> / 2))" "l = rne (c - rne (\<tau> / 2))"
    by simp_all
  have ex: "u - l = \<tau> \<and> (u + l) / 2 = c"
    if a1: "rne (\<tau> / 2) = \<tau> / 2" and a2: "rne (c + \<tau> / 2) = c + \<tau> / 2"
      and a3: "rne (c - \<tau> / 2) = c - \<tau> / 2"
  proof -
    from ul(1) have "u = c + \<tau> / 2" unfolding a1 a2 .
    moreover from ul(2) have "l = c - \<tau> / 2" unfolding a1 a3 .
    ultimately show ?thesis by simp
  qed
  have b1: "\<bar>(u - l) - \<tau>\<bar>
      \<le> eps64 * (\<bar>c + rne (\<tau> / 2)\<bar> + \<bar>c - rne (\<tau> / 2)\<bar> + \<bar>\<tau>\<bar>) + 4 * eta64"
    unfolding ul by (rule rounding_bounds)
  have b2: "\<bar>(u + l) / 2 - c\<bar>
      \<le> (eps64 * (\<bar>c + rne (\<tau> / 2)\<bar> + \<bar>c - rne (\<tau> / 2)\<bar>) + 2 * eta64) / 2"
    unfolding ul by (rule rounding_bounds)
  from ul b1 b2 ex show ?thesis by blast
qed

lemma rnd64_hundredth:
  "rnd64 (5764607523034235 / 2 ^ 60) = Fin (5764607523034235 / 2 ^ 60)"
  "rnd64 (5764607523034235 / 2 ^ 59) = Fin (5764607523034235 / 2 ^ 59)"
  "rnd64 (- (5764607523034235 / 2 ^ 59)) = Fin (- (5764607523034235 / 2 ^ 59))"
  "rnd64 (45035996273705 / 2 ^ 52) = Fin (45035996273705 / 2 ^ 52)"
  using rnd64_dyadic [of 5764607523034235 60] rnd64_dyadic [of 5764607523034235 59]
    rnd64_dyadic [of "- 5764607523034235" 59] rnd64_dyadic [of 45035996273705 52]
  by simp_all

lemma rnd64_quarter_hundredth:
  "rnd64 (293994983674745979 / 2 ^ 60) = Fin (2296835809958953 / 2 ^ 53)"
  "rnd64 (282465768628677509 / 2 ^ 60) = Fin (2206763817411543 / 2 ^ 53)"
proof -
  show "rnd64 (293994983674745979 / 2 ^ 60) = Fin (2296835809958953 / 2 ^ 53)"
    by (rule rnd64_eqI [where e = "- 2"]) (simp_all add: pow2_def rint_def Let_def max64_def)
  show "rnd64 (282465768628677509 / 2 ^ 60) = Fin (2206763817411543 / 2 ^ 53)"
    by (rule rnd64_eqI [where e = "- 3"]) (simp_all add: pow2_def rint_def Let_def max64_def)
qed

lemma rne_examples: "rne (1 / 8) = 1 / 8" "rne (3 / 8) = 3 / 8"
  using rnd64_FinD [of "1 / 8" "1 / 8"] rnd64_FinD [of "3 / 8" "3 / 8"] rnd64_examples
  by simp_all

lemma cst2coords_hundredth:
  "cst2coords cst_std [Fin 1] [Fin 0] (Fin (5764607523034235 / 2 ^ 58)) 3
     = Inr ([Fin 0, Fin (1 / 2), Fin 1],
            [Fin 0, Fin (2296835809958953 / 2 ^ 53), Fin (5764607523034235 / 2 ^ 59)],
            [Fin 0, Fin (2206763817411543 / 2 ^ 53), Fin (- (5764607523034235 / 2 ^ 59))],
            [Fin 0, Fin (1 / 4), Fin 0],
            [Fin 0, Fin (5764607523034235 / 2 ^ 59), Fin (5764607523034235 / 2 ^ 58)])"
  using rnd64_hundredth rnd64_quarter_hundredth
  by (simp add: cst2coords_def cosspace_0_1_3 cst_std_def shape_single np_add_def np_sub_def
      broadcast2_def np_half_def rnd64_examples)

text \<open>
  With the camber coefficient 1, the thickness coefficient 0 and three samples, the
  middle point has the camber 1/4. With the trailing-edge thickness 1/2 its thickness is
  1/4, nothing is rounded, and the upper and lower values 3/8 and 1/8 give back
  thickness and camber exactly. With the float nearest to 0.02 as trailing-edge
  thickness its thickness is the float nearest to 0.01, the sums \<open>0.25 + 0.005\<close> and
  \<open>0.25 - 0.005\<close> are rounded, and the difference of the upper and the lower value
  stays within the bound.
\<close>

theorem cst2coords_consistent_witness:
  "grid_shaped cst_std \<and>
   cst2coords cst_std [Fin 1] [Fin 0] (Fin (1 / 2)) 3
     = Inr ([Fin 0, Fin (1 / 2), Fin 1], [Fin 0, Fin (3 / 8), Fin (1 / 4)],
            [Fin 0, Fin (1 / 8), Fin (- (1 / 4))], [Fin 0, Fin (1 / 4), Fin 0],
            [Fin 0, Fin (1 / 4), Fin (1 / 2)]) \<and>
   (1::nat) < length [Fin 0, Fin (1 / 2), Fin 1] \<and>
   rne (1 / 4 / 2) = 1 / 4 / 2 \<and> rne (1 / 4 + 1 / 4 / 2) = 1 / 4 + 1 / 4 / 2 \<and>
   rne (1 / 4 - 1 / 4 / 2) = 1 / 4 - 1 / 4 / 2 \<and>
   (3 / 8 - 1 / 8 :: real) = 1 / 4 \<and> ((3 / 8 + 1 / 8) / 2 :: real) = 1 / 4 \<and>
   cst2coords cst_std [Fin 1] [Fin 0] (Fin (5764607523034235 / 2 ^ 58)) 3
     = Inr ([Fin 0, Fin (1 / 2), Fin 1],
            [Fin 0, Fin (2296835809958953 / 2 ^ 53), Fin (5764607523034235 / 2 ^ 59)],
            [Fin 0, Fin (2206763817411543 / 2 ^ 53), Fin (- (5764607523034235 / 2 ^ 59))],
            [Fin 0, Fin (1 / 4), Fin 0],
            [Fin 0, Fin (5764607523034235 / 2 ^ 59), Fin (5764607523034235 / 2 ^ 58)]) \<and>
   (2296835809958953 / 2 ^ 53 :: real) = rne (1 / 4 + rne (5764607523034235 / 2 ^ 59 / 2)) \<and>
   (2206763817411543 / 2 ^ 53 :: real) = rne (1 / 4 - rne (5764607523034235 / 2 ^ 59 / 2)) \<and>
   \<bar>(2296835809958953 / 2 ^ 53 - 2206763817411543 / 2 ^ 53) - 5764607523034235 / 2 ^ 59\<bar>
     \<le> eps64 * (\<bar>1 / 4 + rne (5764607523034235 / 2 ^ 59 / 2)\<bar>
                 + \<bar>1 / 4 - rne (5764607523034235 / 2 ^ 59 / 2)\<bar>
                 + \<bar>5764607523034235 / 2 ^ 59 :: real\<bar>) + 4 * eta64"
  using cst2coords_consistent [OF grid_shaped_cst_std cst2coords_hundredth,
      of 1 "1 / 4" "5764607523034235 / 2 ^ 59" "2296835809958953 / 2 ^ 53"
         "2206763817411543 / 2 ^ 53"]
    cst2coords_consistent [OF grid_shaped_cst_std cst2coords_example,
      of 1 "1 / 4" "1 / 4" "3 / 8" "1 / 8"]
    grid_shaped_cst_std cst2coords_hundredth cst2coords_example rne_examples
  by simp

text \<open>
  Claim C2 as stated asks for exact equality at every grid point. With the float
  nearest to 0.02 as trailing-edge thickness, the middle point of three has the
  thickness \<open>5764607523034235 / 2\<^sup>5\<^sup>9\<close>, the float nearest to 0.01, and the upper value
  minus the lower one, computed exactly or as a float, is \<open>45035996273705 / 2\<^sup>5\<^sup>2\<close>,
  which is larger by \<open>5 / 2\<^sup>5\<^sup>9\<close>.
\<close>

theorem cst2coords_rounds:
  "cst2coords cst_std [Fin 1] [Fin 0] (Fin (5764607523034235 / 2 ^ 58)) 3
     = Inr ([Fin 0, Fin (1 / 2), Fin 1],
            [Fin 0, Fin (2296835809958953 / 2 ^ 53), Fin (5764607523034235 / 2 ^ 59)],
            [Fin 0, Fin (2206763817411543 / 2 ^ 53), Fin (- (5764607523034235 / 2 ^ 59))],
            [Fin 0, Fin (1 / 4), Fin 0],
            [Fin 0, Fin (5764607523034235 / 2 ^ 59), Fin (5764607523034235 / 2 ^ 58)]) \<and>
   (2296835809958953 / 2 ^ 53 - 2206763817411543 / 2 ^ 53 :: real)
     = 5764607523034235 / 2 ^ 59 + 5 / 2 ^ 59 \<and>
   fsub (Fin (2296835809958953 / 2 ^ 53)) (Fin (2206763817411543 / 2 ^ 53))
     = Fin (45035996273705 / 2 ^ 52) \<and>
   (5764607523034235 / 2 ^ 59 :: real) < 45035996273705 / 2 ^ 52"
  using cst2coords_hundredth rnd64_hundredth by simp

subsection \<open>Optional rounding of the coordinates\<close>

text \<open>
  Claim C8, as amended. When the inputs are there, \<open>cst2coords\<close> returns and the
  precision fits a C int: with the precision \<open>None\<close> \<open>compute_coords\<close> returns the
  five sequences of \<open>cst2coords\<close> as they are; with a precision \<open>p\<close> it returns five
  sequences, each got from its own sequence of \<open>cst2coords\<close> alone, element by
  element, by the float product with the float power of ten, the nearest integer with
  ties to even, and the float quotient. For \<open>p\<close> from 0 to 22 every finite result
  is within half a unit of the \<open>p\<close>-th decimal place of its original, up to the rounding
  errors of the three float operations.
\<close>

theorem compute_coords_rounding:
  assumes "getitem inputs ''a_ca'' = Inr a_ca" and "getitem inputs ''a_th'' = Inr a_th"
      and "getitem inputs ''t_te'' = Inr (t_te # rest)"
      and "cst2coords cst a_ca a_th t_te (case n of None \<Rightarrow> opt_n_coords self | Some k \<Rightarrow> k)
             = Inr (x, y_u, y_l, y_c, t)"
      and "- (2 ^ 31) \<le> p" and "p < 2 ^ 31"
  shows "compute_coords cst self inputs None n = Inr (x, y_u, y_l, y_c, t) \<and>
         (\<exists>x' y_u' y_l' y_c' t'.
            compute_coords cst self inputs (Some p) n = Inr (x', y_u', y_l', y_c', t') \<and>
            rounded_to p x x' \<and> rounded_to p y_u y_u' \<and> rounded_to p y_l y_l' \<and>
            rounded_to p y_c y_c' \<and> rounded_to p t t' \<and>
            (0 \<le> p \<and> p \<le> 22 \<longrightarrow>
               decimal_close p x x' \<and> decimal_close p y_u y_u' \<and> decimal_close p y_l y_l' \<and>
               decimal_close p y_c y_c' \<and> decimal_close p t t'))"
proof -
  note s = compute_coords_Some [OF assms]
  have "compute_coords cst self inputs None n = Inr (x, y_u, y_l, y_c, t)"
    by (rule compute_coords_None [OF assms(1-4)])
  moreover have "rounded_to p x (map (round1 p) x)" "rounded_to p y_u (map (round1 p) y_u)"
    "rounded_to p y_l (map (round1 p) y_l)" "rounded_to p y_c (map (round1 p) y_c)"
    "rounded_to p t (map (round1 p) t)"
    using s(2-6) by (simp_all only: np_round_rounded_to)
  moreover have "decimal_close p x (map (round1 p) x) \<and>
      decimal_close p y_u (map (round1 p) y_u) \<and> decimal_close p y_l (map (round1 p) y_l) \<and>
      decimal_close p y_c (map (round1 p) y_c) \<and> decimal_close p t (map (round1 p) t)"
    if "0 \<le> p" "p \<le> 22"
    using s(2-6) that by (simp only: np_round_decimal_close)
  ultimately show ?thesis using s(1) by blast
qed

text \<open>
  For the coefficients 1 and 0, the trailing-edge thickness 1/2, three samples and the
  precision 2: the upper values \<open>[0, 3/8, 1/4]\<close> become \<open>[0, 0.38, 0.25]\<close> and the lower
  values \<open>[0, 1/8, -1/4]\<close> become \<open>[0, 0.12, -0.25]\<close>, with 0.38 and 0.12 the nearest
  floats.
\<close>

theorem compute_coords_rounding_witness:
  "getitem example_inputs ''a_ca'' = Inr [Fin 1] \<and>
   getitem example_inputs ''a_th'' = Inr [Fin 0] \<and>
   getitem example_inputs ''t_te'' = Inr [Fin (1 / 2)] \<and>
   cst2coords cst_std [Fin 1] [Fin 0] (Fin (1 / 2)) 3
     = Inr ([Fin 0, Fin (1 / 2), Fin 1], [Fin 0, Fin (3 / 8), Fin (1 / 4)],
            [Fin 0, Fin (1 / 8), Fin (- (1 / 4))], [Fin 0, Fin (1 / 4), Fin 0],
            [Fin 0, Fin (1 / 4), Fin (1 / 2)]) \<and>
   - (2 ^ 31) \<le> (2 :: int) \<and> (2 :: int) < 2 ^ 31 \<and>
   compute_coords cst_std default_options example_inputs None (Some 3)
     = Inr ([Fin 0, Fin (1 / 2), Fin 1], [Fin 0, Fin (3 / 8), Fin (1 / 4)],
            [Fin 0, Fin (1 / 8), Fin (- (1 / 4))], [Fin 0, Fin (1 / 4), Fin 0],
            [Fin 0, Fin (1 / 4), Fin (1 / 2)]) \<and>
   compute_coords cst_std default_options example_inputs (Some 2) (Some 3)
     = Inr ([Fin 0, Fin (1 / 2), Fin 1],
            [Fin 0, Fin (3422735716801577 / 2 ^ 53), Fin (1 / 4)],
            [Fin 0, Fin (1080863910568919 / 2 ^ 53), Fin (- (1 / 4))],
            [Fin 0, Fin (1 / 4), Fin 0], [Fin 0, Fin (1 / 4), Fin (1 / 2)]) \<and>
   rounded_to 2 [Fin 0, Fin (3 / 8), Fin (1 / 4)]
     [Fin 0, Fin (3422735716801577 / 2 ^ 53), Fin (1 / 4)] \<and>
   rounded_to 2 [Fin 0, Fin (1 / 8), Fin (- (1 / 4))]
     [Fin 0, Fin (1080863910568919 / 2 ^ 53), Fin (- (1 / 4))] \<and>
   decimal_close 2 [Fin 0, Fin (3 / 8), Fin (1 / 4)]
     [Fin 0, Fin (3422735716801577 / 2 ^ 53), Fin (1 / 4)]"
  using compute_coords_rounding [where inputs = example_inputs and cst = cst_std
      and self = default_options and n = "Some 3" and p = 2 and a_ca = "[Fin 1]"
      and a_th = "[Fin 0]" and t_te = "Fin (1 / 2)" and rest = "[]"
      and x = "[Fin 0, Fin (1 / 2), Fin 1]" and y_u = "[Fin 0, Fin (3 / 8), Fin (1 / 4)]"
      and y_l = "[Fin 0, Fin (1 / 8), Fin (- (1 / 4))]" and y_c = "[Fin 0, Fin (1 / 4), Fin 0]"
      and t = "[Fin 0, Fin (1 / 4), Fin (1 / 2)]"]
    cst2coords_example compute_coords_example_rounded
  by (simp add: getitem_def example_inputs_simps)

text \<open>
  Claim C8 as stated asks for every precision that the sequences come back rounded to
  that number of decimal places. With the precision 309 the float power of ten is
  infinite and all five sequences come back as not-a-number, the grid \<open>[0, 1/2, 1]\<close>
  included. With the precision 2 and the float nearest to 2.675 as trailing-edge
  thickness, which lies below 2.675 and nearer to 2.67 than to 2.68, the last thickness
  comes back as the float nearest to 2.68, more than half a unit of the second decimal
  place away: the float product with 100 is 267.5 exactly, a tie.
\<close>

theorem compute_coords_not_decimal:
  "compute_coords cst_std default_options example_inputs None (Some 3)
     = Inr ([Fin 0, Fin (1 / 2), Fin 1], [Fin 0, Fin (3 / 8), Fin (1 / 4)],
            [Fin 0, Fin (1 / 8), Fin (- (1 / 4))], [Fin 0, Fin (1 / 4), Fin 0],
            [Fin 0, Fin (1 / 4), Fin (1 / 2)]) \<and>
   compute_coords cst_std default_options example_inputs (Some 309) (Some 3)
     = Inr ([NaN, NaN, NaN], [NaN, NaN, NaN], [NaN, NaN, NaN], [NaN, NaN, NaN],
            [NaN, NaN, NaN]) \<and>
   compute_coords cst_std default_options example_inputs_te None (Some 3)
     = Inr ([Fin 0, Fin (1 / 2), Fin 1],
            [Fin 0, Fin (4137682157646643 / 2 ^ 52), Fin (3011782250804019 / 2 ^ 51)],
            [Fin 0, Fin (- (1885882343961395 / 2 ^ 52)), Fin (- (3011782250804019 / 2 ^ 51))],
            [Fin 0, Fin (1 / 4), Fin 0],
            [Fin 0, Fin (3011782250804019 / 2 ^ 51), Fin (3011782250804019 / 2 ^ 50)]) \<and>
   (\<exists>x' y_u' y_l' y_c' t'.
      compute_coords cst_std default_options example_inputs_te (Some 2) (Some 3)
        = Inr (x', y_u', y_l', y_c', t') \<and>
      t' ! 2 = Fin (6034823500676465 / 2 ^ 51)) \<and>
   (1 / 200 :: real) < 6034823500676465 / 2 ^ 51 - 3011782250804019 / 2 ^ 50 \<and>
   \<bar>267 / 100 - 3011782250804019 / 2 ^ 50 :: real\<bar> < 1 / 200"
proof -
  have g: "getitem example_inputs_te ''a_ca'' = Inr [Fin 1]"
    "getitem example_inputs_te ''a_th'' = Inr [Fin 0]"
    "getitem example_inputs_te ''t_te'' = Inr [Fin (3011782250804019 / 2 ^ 50)]"
    by (simp_all add: getitem_def example_inputs_te_simps)
  have c: "cst2coords cst_std [Fin 1] [Fin 0] (Fin (3011782250804019 / 2 ^ 50))
      (case Some 3 of None \<Rightarrow> opt_n_coords default_options | Some k \<Rightarrow> k)
     = Inr ([Fin 0, Fin (1 / 2), Fin 1],
            [Fin 0, Fin (4137682157646643 / 2 ^ 52), Fin (3011782250804019 / 2 ^ 51)],
            [Fin 0, Fin (- (1885882343961395 / 2 ^ 52)), Fin (- (3011782250804019 / 2 ^ 51))],
            [Fin 0, Fin (1 / 4), Fin 0],
            [Fin 0, Fin (3011782250804019 / 2 ^ 51), Fin (3011782250804019 / 2 ^ 50)])"
    using cst2coords_te by simp
  have r: "- (2 ^ 31) \<le> (2 :: int)" "(2 :: int) < 2 ^ 31" by simp_all
  note n = compute_coords_None [OF g c]
  note s = compute_coords_Some(1) [OF g c r]
  have "\<exists>x' y_u' y_l' y_c' t'.
      compute_coords cst_std default_options example_inputs_te (Some 2) (Some 3)
        = Inr (x', y_u', y_l', y_c', t') \<and>
      t' ! 2 = Fin (6034823500676465 / 2 ^ 51)"
    unfolding s using round1_te by simp
  with n compute_coords_example compute_coords_example_nan show ?thesis by simp
qed

end
